theory Spec2Isabelle
  imports Main
begin

section \<open>Errors\<close>

text \<open>
  Go errors as values. The store's client answers with API status errors that carry a
  reason; \<open>errors.IsConflict\<close> and \<open>errors.IsAlreadyExists\<close> of
  \<open>k8s.io/apimachinery/pkg/api/errors\<close> read that reason. \<open>Wrapped p e\<close> is
  \<open>fmt.Errorf(p + "%w", e)\<close>: its text is the prefix followed by the text of \<open>e\<close>, and
  the reason is still found through the wrapping.
\<close>

datatype status_reason = StatusReasonConflict | StatusReasonAlreadyExists | StatusReasonUnknown

datatype go_error =
    StatusError status_reason string
  | PlainError string
  | Wrapped string go_error

fun Error :: "go_error \<Rightarrow> string" where
  "Error (StatusError r m) = m"
| "Error (PlainError m) = m"
| "Error (Wrapped p e) = p @ Error e"

fun ReasonForError :: "go_error \<Rightarrow> status_reason" where
  "ReasonForError (StatusError r m) = r"
| "ReasonForError (PlainError m) = StatusReasonUnknown"
| "ReasonForError (Wrapped p e) = ReasonForError e"

definition IsConflict :: "go_error \<Rightarrow> bool" where
  "IsConflict e = (ReasonForError e = StatusReasonConflict)"

definition IsAlreadyExists :: "go_error \<Rightarrow> bool" where
  "IsAlreadyExists e = (ReasonForError e = StatusReasonAlreadyExists)"


section \<open>Policy status (controllers/authpolicy_status.go)\<close>

subsection \<open>Conditions\<close>

datatype condition_status = ConditionTrue | ConditionFalse | ConditionUnknown

text \<open>
  \<open>metav1.Condition\<close>. Times are natural numbers, \<open>0\<close> being the zero time
  (\<open>IsZero\<close>).
\<close>

record condition =
  Type :: string
  Status :: condition_status
  CondObservedGeneration :: int
  LastTransitionTime :: nat
  Reason :: string
  Message :: string

record AuthPolicyStatus =
  Conditions :: "condition list"
  ObservedGeneration :: int

text \<open>
  The fields of \<open>AuthPolicy\<close> that the status code reads: the object's name and
  namespace, its generation, \<open>Spec.TargetRef.Kind\<close> and the status block.
\<close>

record AuthPolicy =
  Name :: string
  Namespace :: string
  Generation :: int
  TargetRefKind :: string
  ap_Status :: AuthPolicyStatus

definition APAvailableConditionType :: string where
  "APAvailableConditionType = ''Available''"

text \<open>
  \<open>availableCondition\<close>: the condition for the good case is built first, then
  overwritten when there is a spec error, else when the AuthConfig is not ready.
\<close>

definition availableCondition :: "string \<Rightarrow> go_error option \<Rightarrow> bool \<Rightarrow> condition" where
  "availableCondition targetNetworkObjectectKind specErr authConfigReady =
     (let cond = \<lparr> Type = APAvailableConditionType,
                    Status = ConditionTrue,
                    CondObservedGeneration = 0,
                    LastTransitionTime = 0,
                    Reason = targetNetworkObjectectKind @ ''Protected'',
                    Message = targetNetworkObjectectKind @ '' is protected'' \<rparr>
      in case specErr of
           Some e \<Rightarrow> cond\<lparr> Status := ConditionFalse,
                           Reason := ''ReconciliationError'',
                           Message := Error e \<rparr>
         | None \<Rightarrow>
             if \<not> authConfigReady
             then cond\<lparr> Status := ConditionFalse,
                        Reason := ''AuthSchemeNotReady'',
                        Message := ''AuthScheme is not ready yet'' \<rparr>
             else cond)"

text \<open>
  Modelled from the spec: \<open>common.CopyConditions\<close> (pkg/common, not under src/). The
  spec calls it a copy-on-write of the condition list: the copy holds the same
  conditions in the same order.
\<close>

definition CopyConditions :: "condition list \<Rightarrow> condition list" where
  "CopyConditions conditions = map (\<lambda>c. c) conditions"

text \<open>
  Modelled from the spec: \<open>meta.FindStatusCondition\<close> and \<open>meta.SetStatusCondition\<close>
  (k8s.io/apimachinery, not under src/). The spec says that only the availability
  condition is upserted by type and the other conditions are preserved. The first
  condition of the same type is updated in place (the transition time moves only when the
  status changes, to the new condition's time or else to the current time \<open>now\<close>); when
  there is none, the new condition is appended, stamped with \<open>now\<close> if it has no time.
\<close>

fun FindStatusCondition :: "condition list \<Rightarrow> string \<Rightarrow> condition option" where
  "FindStatusCondition [] t = None"
| "FindStatusCondition (c # cs) t = (if Type c = t then Some c else FindStatusCondition cs t)"

definition mergeCondition :: "nat \<Rightarrow> condition \<Rightarrow> condition \<Rightarrow> condition" where
  "mergeCondition now existing new =
     (let e1 = (if Status existing \<noteq> Status new
                then existing\<lparr> Status := Status new,
                               LastTransitionTime :=
                                 (if LastTransitionTime new \<noteq> 0 then LastTransitionTime new else now) \<rparr>
                else existing)
      in e1\<lparr> Reason := Reason new,
              Message := Message new,
              CondObservedGeneration := CondObservedGeneration new \<rparr>)"

fun SetStatusCondition :: "nat \<Rightarrow> condition list \<Rightarrow> condition \<Rightarrow> condition list" where
  "SetStatusCondition now [] new =
     [if LastTransitionTime new = 0 then new\<lparr> LastTransitionTime := now \<rparr> else new]"
| "SetStatusCondition now (c # cs) new =
     (if Type c = Type new then mergeCondition now c new # cs
      else c # SetStatusCondition now cs new)"

definition calculateStatus ::
  "nat \<Rightarrow> AuthPolicy \<Rightarrow> go_error option \<Rightarrow> bool \<Rightarrow> AuthPolicyStatus" where
  "calculateStatus now ap specErr authConfigReady =
     (let newStatus = \<lparr> Conditions = CopyConditions (Conditions (ap_Status ap)),
                         ObservedGeneration = ObservedGeneration (ap_Status ap) \<rparr>;
          availableCond = availableCondition (TargetRefKind ap) specErr authConfigReady
      in newStatus\<lparr> Conditions := SetStatusCondition now (Conditions newStatus) availableCond \<rparr>)"



text \<open>
  What a status says about availability: status, reason and message of its condition
  of type Available, if it has one.
\<close>

definition availableOf :: "AuthPolicyStatus \<Rightarrow> (condition_status \<times> string \<times> string) option" where
  "availableOf st =
     map_option (\<lambda>c. (Status c, Reason c, Message c))
       (FindStatusCondition (Conditions st) APAvailableConditionType)"


subsection \<open>Reconciling the status block\<close>

datatype log_val = S string | B bool | E "go_error option" | Seq int int

text \<open>
  What \<open>reconcileStatus\<close> does to the outside, in order: log lines at verbosity 1
  (\<open>logger.V(1).Info\<close>) and 0 (\<open>logger.Info\<close>), each with its message and key/value
  pairs, and the status-only update call, with the object it submits.
\<close>

datatype status_effect =
    V1Info string "(string \<times> log_val) list"
  | V0Info string "(string \<times> log_val) list"
  | StatusUpdate AuthPolicy

record ctrl_Result =
  Requeue :: bool

text \<open>
  \<open>reconcileStatus\<close>. The surroundings are arguments:
  \<^item> \<open>Equals\<close> is \<open>AuthPolicyStatus.Equals\<close> (api/v1beta1, not under src/), the
    comparison of the current status with the new one;
  \<^item> \<open>now\<close> is the clock read by \<open>SetStatusCondition\<close>;
  \<^item> \<open>getAuthConfig\<close> is what fetching the AuthConfig gives: the error of
    \<open>GetResource\<close>, or else \<open>authConfig.Status.Ready()\<close>; it is read only when there
    is no spec error;
  \<^item> \<open>updateErr\<close> is the answer of \<open>r.Client().Status().Update\<close>, read only when
    the call is made.
  The result is the pair the Go function returns, the policy object as the function
  leaves it (it assigns \<open>ap.Status\<close> before the update call), and the effects.
\<close>

definition fetchReady :: "go_error option \<Rightarrow> go_error + bool \<Rightarrow> go_error + bool" where
  "fetchReady specErr getAuthConfig =
     (case specErr of
        None \<Rightarrow> (case getAuthConfig of Inl err \<Rightarrow> Inl err | Inr ready \<Rightarrow> Inr ready)
      | Some e \<Rightarrow> Inr True)"

definition writeStatus ::
  "go_error option \<Rightarrow> AuthPolicy \<Rightarrow> AuthPolicyStatus \<Rightarrow>
     (ctrl_Result \<times> go_error option) \<times> AuthPolicy \<times> status_effect list" where
  "writeStatus updateErr ap newStatus =
     (let newStatus' = newStatus\<lparr> ObservedGeneration := Generation ap \<rparr>;
          log = [V1Info ''Updating Status''
                   [(''sequence no:'',
                     Seq (ObservedGeneration (ap_Status ap)) (ObservedGeneration newStatus'))]];
          ap' = ap\<lparr> ap_Status := newStatus' \<rparr>
      in case updateErr of
           Some err \<Rightarrow>
             if IsConflict err
             then ((\<lparr> Requeue = True \<rparr>, None), ap',
                   log @ [StatusUpdate ap',
                          V0Info ''Failed to update status: resource might just be outdated'' []])
             else ((\<lparr> Requeue = False \<rparr>, Some (Wrapped ''failed to update status: '' err)), ap',
                   log @ [StatusUpdate ap'])
         | None \<Rightarrow> ((\<lparr> Requeue = False \<rparr>, None), ap', log @ [StatusUpdate ap']))"

definition reconcileStatus ::
  "(AuthPolicyStatus \<Rightarrow> AuthPolicyStatus \<Rightarrow> bool) \<Rightarrow> nat \<Rightarrow> go_error + bool \<Rightarrow> go_error option \<Rightarrow>
     AuthPolicy \<Rightarrow> go_error option \<Rightarrow>
     (ctrl_Result \<times> go_error option) \<times> AuthPolicy \<times> status_effect list" where
  "reconcileStatus Equals now getAuthConfig updateErr ap specErr =
     (let log0 = [V1Info ''Reconciling AuthPolicy status'' [(''spec error'', E specErr)]]
      in case fetchReady specErr getAuthConfig of
           Inl err \<Rightarrow> ((\<lparr> Requeue = False \<rparr>, Some err), ap, log0)
         | Inr isAuthConfigReady \<Rightarrow>
             let newStatus = calculateStatus now ap specErr isAuthConfigReady;
                 equalStatus = Equals (ap_Status ap) newStatus;
                 log1 = log0 @
                   [V1Info ''Status'' [(''status is different'', B (\<not> equalStatus))],
                    V1Info ''Status'' [(''generation is different'',
                                        B (Generation ap \<noteq> ObservedGeneration (ap_Status ap)))],
                    V1Info ''Status'' [(''AuthConfig is ready'', B isAuthConfigReady)]]
             in if equalStatus \<and> Generation ap = ObservedGeneration (ap_Status ap)
                then ((\<lparr> Requeue = False \<rparr>, None), ap,
                      log1 @ [V1Info ''Status up-to-date. No changes required.'' []])
                else (case writeStatus updateErr ap newStatus of
                        (res, ap', tr) \<Rightarrow> (res, ap', log1 @ tr)))"

fun statusWrites :: "status_effect list \<Rightarrow> AuthPolicy list" where
  "statusWrites [] = []"
| "statusWrites (StatusUpdate ap # es) = ap # statusWrites es"
| "statusWrites (e # es) = statusWrites es"


section \<open>Selective spec merge (pkg/kuadranttools/limitador_tools.go)\<close>

text \<open>
  \<open>limitadorv1alpha1.LimitadorSpec\<close> is declared outside src/. The five fields the
  code names hold values of a type \<open>'v\<close> (\<open>reflect.DeepEqual\<close> on them is equality of
  the values), and \<open>OtherSpec\<close> stands for every field of the spec that the code does not
  name. \<open>Meta\<close> and \<open>LimitadorStatus\<close> are the rest of the object. The objects
  are values: both pointers are taken to be non-nil, and the sharing that the Go
  assignments of pointer fields create between the two objects is not part of the model.
\<close>

record ('v, 'r) LimitadorSpec =
  Affinity :: 'v
  PodDisruptionBudget :: 'v
  Replicas :: 'v
  ResourceRequirements :: 'v
  Storage :: 'v
  OtherSpec :: 'r

record ('v, 'r, 'm, 's) Limitador =
  Meta :: 'm
  Spec :: "('v, 'r) LimitadorSpec"
  LimitadorStatus :: 's

text \<open>\<open>v1beta1.LimitadorSpec\<close>, the subset type, with the five fields the code sets.\<close>

record 'v v1beta1_LimitadorSpec =
  sub_Affinity :: 'v
  sub_PodDisruptionBudget :: 'v
  sub_Replicas :: 'v
  sub_ResourceRequirements :: 'v
  sub_Storage :: 'v

text \<open>
  A \<open>client.Object\<close> is a pointer to a Limitador or an object of another type, of which
  only the type's name (what \<open>%T\<close> prints) matters.
\<close>

datatype ('v, 'r, 'm, 's) client_Object =
    LimitadorPtr "('v, 'r, 'm, 's) Limitador"
  | OtherObject string

fun typeName :: "('v, 'r, 'm, 's) client_Object \<Rightarrow> string" where
  "typeName (LimitadorPtr l) = ''*v1alpha1.Limitador''"
| "typeName (OtherObject t) = t"

definition limitadorSpecSubSet :: "('v, 'r) LimitadorSpec \<Rightarrow> 'v v1beta1_LimitadorSpec" where
  "limitadorSpecSubSet spec =
     \<lparr> sub_Affinity = Affinity spec,
       sub_PodDisruptionBudget = PodDisruptionBudget spec,
       sub_Replicas = Replicas spec,
       sub_ResourceRequirements = ResourceRequirements spec,
       sub_Storage = Storage spec \<rparr>"

text \<open>
  \<open>LimitadorMutator\<close> returns the existing object as the call leaves it, then the pair
  \<open>(update, error)\<close>. Both error texts print the type of \<open>existingObj\<close>, as the source
  does.
\<close>

fun LimitadorMutator ::
  "('v, 'r, 'm, 's) client_Object \<Rightarrow> ('v, 'r, 'm, 's) client_Object \<Rightarrow>
     ('v, 'r, 'm, 's) client_Object \<times> bool \<times> go_error option" where
  "LimitadorMutator (OtherObject t) desiredObj =
     (OtherObject t, False, Some (PlainError (t @ '' is not a *limitadorv1alpha1.Limitador'')))"
| "LimitadorMutator (LimitadorPtr existing) (OtherObject t) =
     (LimitadorPtr existing, False,
      Some (PlainError (typeName (LimitadorPtr existing :: ('v, 'r, 'm, 's) client_Object)
                        @ '' is not a *limitadorv1alpha1.Limitador'')))"
| "LimitadorMutator (LimitadorPtr existing) (LimitadorPtr desired) =
     (let existingSpec = limitadorSpecSubSet (Spec existing);
          desiredSpec = limitadorSpecSubSet (Spec desired)
      in if existingSpec \<noteq> desiredSpec
         then (LimitadorPtr (existing\<lparr> Spec := (Spec existing)
                 \<lparr> Affinity := Affinity (Spec desired),
                   PodDisruptionBudget := PodDisruptionBudget (Spec desired),
                   Replicas := Replicas (Spec desired),
                   ResourceRequirements := ResourceRequirements (Spec desired),
                   Storage := Storage (Spec desired) \<rparr> \<rparr>),
               True, None)
         else (LimitadorPtr existing, False, None))"

section \<open>The reconciliation workflow (controllers, the policy-machinery controller)\<close>

subsection \<open>Objects, events and the topology\<close>

datatype EventType = CreateEvent | UpdateEvent | DeleteEvent

record GroupKind =
  Group :: string
  Kind :: string

record GroupVersionKind =
  gvk_Group :: string
  gvk_Version :: string
  gvk_Kind :: string

text \<open>
  A topology object is a Go interface value. The code reads it through accessor methods
  and through type assertions, so the model keeps what the accessors return and the
  dynamic type: a pointer to a Kuadrant, a \<open>controller.RuntimeObject\<close> wrapping a
  ConfigMap (of which the data map matters) or something else, or any other type.
\<close>

datatype runtime_inner = ConfigMapPtr "string \<rightharpoonup> string" | OtherRuntime

datatype dyn_type = KuadrantPtr | RuntimeObjectPtr runtime_inner | OtherPtr

record Object =
  GetGroupVersionKind :: GroupVersionKind
  GetNamespace :: string
  GetName :: string
  GetUID :: string
  GetDeletionTimestamp :: "nat option"
  dyn :: dyn_type

record ResourceEvent =
  EventType :: EventType
  OldObject :: "Object option"
  NewObject :: "Object option"

text \<open>
  The topology is read through three observers only: the root objects
  (\<open>Objects().Roots()\<close>), the objects (\<open>Objects().Items(...)\<close> and
  \<open>Objects().Objects().Items()\<close>, the same collection, in the order it gives them)
  and the serialization \<open>ToDot()\<close>.
\<close>

record Topology =
  Roots :: "Object list"
  Items :: "Object list"
  ToDot :: string

text \<open>
  Declarations of the repository outside src/ that the code refers to by name:
  \<open>kuadrantv1beta1.KuadrantKind\<close>, \<open>kuadrantv1beta1.AuthorinoKind\<close> and
  \<open>kuadrant.TopologyLabel\<close>. Their values are arguments.
\<close>

record api_decls =
  KuadrantKind :: GroupKind
  AuthorinoKind :: GroupKind
  TopologyLabel :: string

definition ConfigMapGroupKind :: GroupKind where
  "ConfigMapGroupKind = \<lparr> Group = [], Kind = ''ConfigMap'' \<rparr>"

text \<open>The two resources the dynamic client is asked for, by the name of the constant.\<close>

datatype resource = AuthorinoResource | ConfigMapsResource

subsection \<open>The objects the reconcilers build\<close>

record OwnerReference =
  or_APIVersion :: string
  or_Kind :: string
  or_Name :: string
  or_UID :: string
  BlockOwnerDeletion :: "bool option"
  Controller :: "bool option"

record Authorino =
  a_Kind :: string
  a_APIVersion :: string
  a_Name :: string
  a_Namespace :: string
  OwnerReferences :: "OwnerReference list"
  ClusterWide :: bool
  SupersedingHostSubsets :: bool
  Listener_Tls_Enabled :: "bool option"
  OIDCServer_Tls_Enabled :: "bool option"

record ConfigMap =
  cm_Name :: string
  cm_Namespace :: string
  Labels :: "string \<rightharpoonup> string"
  Data :: "string \<rightharpoonup> string"

datatype typed_object = AuthorinoObj Authorino | ConfigMapObj ConfigMap

datatype unstructured = Unstructured typed_object

subsection \<open>Effects and the surroundings\<close>

datatype kv_val = Str string | EvT EventType

text \<open>
  What a reconcile function does to the outside, in order: \<open>logger.Info\<close> and
  \<open>logger.Error\<close> lines (logger name, message, key/value pairs, and the error for an
  error line), and the create and update calls of the dynamic client (resource,
  namespace and the object submitted, \<open>None\<close> for a nil pointer).
\<close>

datatype effect =
    LogInfo string string "(string \<times> kv_val) list"
  | LogError string go_error string "(string \<times> kv_val) list"
  | CreateCall resource string "unstructured option"
  | UpdateCall resource string "unstructured option"

text \<open>
  A reconcile function returns nothing; it either returns or panics. A panic is a failed
  type assertion or a method call on a nil interface.
\<close>

datatype outcome = Returned | Panicked

text \<open>
  The surroundings of a pass: \<open>Destruct\<close> is \<open>controller.Destruct\<close> (the pair it
  returns), \<open>Create\<close> and \<open>Update\<close> are the errors the dynamic client answers to a
  call, \<open>V1Enabled\<close> is \<open>logger.V(1).Enabled()\<close> and \<open>cmp_Diff\<close> is \<open>cmp.Diff\<close>.
\<close>

record env =
  Destruct :: "typed_object \<Rightarrow> unstructured option \<times> go_error option"
  Create :: "resource \<Rightarrow> string \<Rightarrow> unstructured option \<Rightarrow> go_error option"
  Update :: "resource \<Rightarrow> string \<Rightarrow> unstructured option \<Rightarrow> go_error option"
  V1Enabled :: bool
  cmp_Diff :: "Object option \<Rightarrow> Object option \<Rightarrow> string"

type_synonym ReconcileFunc =
  "ResourceEvent list \<Rightarrow> Topology \<Rightarrow> go_error option \<Rightarrow> outcome \<times> effect list"

fun createCalls :: "effect list \<Rightarrow> (resource \<times> string \<times> unstructured option) list" where
  "createCalls [] = []"
| "createCalls (CreateCall r ns u # es) = (r, ns, u) # createCalls es"
| "createCalls (e # es) = createCalls es"

fun updateCalls :: "effect list \<Rightarrow> (resource \<times> string \<times> unstructured option) list" where
  "updateCalls [] = []"
| "updateCalls (UpdateCall r ns u # es) = (r, ns, u) # updateCalls es"
| "updateCalls (e # es) = updateCalls es"

fun errorLogs :: "effect list \<Rightarrow> (go_error \<times> string) list" where
  "errorLogs [] = []"
| "errorLogs (LogError n e m kvs # es) = (e, m) # errorLogs es"
| "errorLogs (e # es) = errorLogs es"

subsection \<open>AuthorinoCrReconciler\<close>

definition GroupVersion_String :: "GroupVersionKind \<Rightarrow> string" where
  "GroupVersion_String gvk =
     (if length (gvk_Group gvk) > 0 then gvk_Group gvk @ ''/'' @ gvk_Version gvk
      else gvk_Version gvk)"

text \<open>
  The first \<open>lo.FilterMap\<close>: every root of kind Kuadrant is asserted to be a pointer to
  a Kuadrant; \<open>None\<close> is the panic of a failed assertion.
\<close>

fun kuadrantRoots :: "api_decls \<Rightarrow> Object list \<Rightarrow> Object list option" where
  "kuadrantRoots k [] = Some []"
| "kuadrantRoots k (item # items) =
     (if gvk_Kind (GetGroupVersionKind item) = Kind (KuadrantKind k)
      then (case dyn item of
              KuadrantPtr \<Rightarrow> map_option ((#) item) (kuadrantRoots k items)
            | _ \<Rightarrow> None)
      else kuadrantRoots k items)"

definition authorinoObjects :: "api_decls \<Rightarrow> Object list \<Rightarrow> Object list" where
  "authorinoObjects k items =
     filter (\<lambda>item. gvk_Kind (GetGroupVersionKind item) = Kind (AuthorinoKind k)) items"

definition newAuthorino :: "Object \<Rightarrow> Authorino" where
  "newAuthorino kobj =
     \<lparr> a_Kind = ''Authorino'',
       a_APIVersion = ''operator.authorino.kuadrant.io/v1beta1'',
       a_Name = ''authorino'',
       a_Namespace = GetNamespace kobj,
       OwnerReferences =
         [\<lparr> or_APIVersion = GroupVersion_String (GetGroupVersionKind kobj),
            or_Kind = gvk_Kind (GetGroupVersionKind kobj),
            or_Name = GetName kobj,
            or_UID = GetUID kobj,
            BlockOwnerDeletion = Some True,
            Controller = Some True \<rparr>],
       ClusterWide = True,
       SupersedingHostSubsets = True,
       Listener_Tls_Enabled = Some False,
       OIDCServer_Tls_Enabled = Some False \<rparr>"

text \<open>The tail of \<open>Reconcile\<close>, from the construction of the object on.\<close>

definition createAuthorino :: "env \<Rightarrow> Object \<Rightarrow> effect list" where
  "createAuthorino env kobj =
     (let authorino = newAuthorino kobj;
          (unstructuredAuthorino, err) = Destruct env (AuthorinoObj authorino)
      in (case err of
            Some e \<Rightarrow> [LogError ''AuthorinoCrReconciler'' e ''failed to destruct authorino''
                         [(''status'', Str ''error'')]]
          | None \<Rightarrow> [])
         @ [LogInfo ''AuthorinoCrReconciler'' ''creating authorino resource''
              [(''status'', Str ''processing'')],
            CreateCall AuthorinoResource (a_Namespace authorino) unstructuredAuthorino]
         @ (case Create env AuthorinoResource (a_Namespace authorino) unstructuredAuthorino of
              Some e \<Rightarrow>
                if IsAlreadyExists e
                then [LogInfo ''AuthorinoCrReconciler'' ''already created authorino resource''
                        [(''status'', Str ''acceptable'')]]
                else [LogError ''AuthorinoCrReconciler'' e ''failed to create authorino resource''
                        [(''status'', Str ''error'')]]
            | None \<Rightarrow> []))"

definition AuthorinoCr_body :: "api_decls \<Rightarrow> env \<Rightarrow> Topology \<Rightarrow> outcome \<times> effect list" where
  "AuthorinoCr_body k env topology =
     (case kuadrantRoots k (Roots topology) of
        None \<Rightarrow> (Panicked, [])
      | Some kobjs \<Rightarrow>
          if length kobjs = 0
          then (Returned, [LogInfo ''AuthorinoCrReconciler'' ''no kuadrant resources found''
                             [(''status'', Str ''skipping'')]])
          else
            let multi =
                  (if length kobjs > 1
                   then [LogError ''AuthorinoCrReconciler''
                           (PlainError ''multiple Kuadrant resources found'')
                           ''cannot select root Kuadrant resource'' [(''status'', Str ''error'')]]
                   else []);
                kobj = hd kobjs
            in if GetDeletionTimestamp kobj \<noteq> None
               then (Returned, multi @
                       [LogInfo ''AuthorinoCrReconciler'' ''root kuadrant marked for deletion''
                          [(''status'', Str ''skipping'')]])
               else if length (authorinoObjects k (Items topology)) > 0
               then (Returned, multi @
                       [LogInfo ''AuthorinoCrReconciler''
                          ''authorino resource already exists, no need to create''
                          [(''status'', Str ''skipping'')]])
               else (Returned, multi @ createAuthorino env kobj))"

text \<open>
  \<open>AuthorinoCrReconciler.Reconcile\<close>: the events and the upstream error are ignored; the
  first log line is written on entry and the deferred one when the function is left, also
  by a panic.
\<close>

definition AuthorinoCr_Reconcile :: "api_decls \<Rightarrow> env \<Rightarrow> ReconcileFunc" where
  "AuthorinoCr_Reconcile k env events topology err =
     (case AuthorinoCr_body k env topology of
        (out, tr) \<Rightarrow>
          (out,
           [LogInfo ''AuthorinoCrReconciler'' ''reconciling authorino resource''
              [(''status'', Str ''started'')]]
           @ tr @
           [LogInfo ''AuthorinoCrReconciler'' ''reconciling authorino resource''
              [(''status'', Str ''completed'')]]))"


subsection \<open>TopologyFileReconciler\<close>

record TopologyFileReconciler =
  tf_Namespace :: string


text \<open>\<open>strings.Compare\<close>: the bytes are compared from the left.\<close>

fun strings_Compare :: "string \<Rightarrow> string \<Rightarrow> int" where
  "strings_Compare [] [] = 0"
| "strings_Compare [] (y # ys) = - 1"
| "strings_Compare (x # xs) [] = 1"
| "strings_Compare (x # xs) (y # ys) =
     (if (of_char x :: nat) < of_char y then - 1
      else if (of_char y :: nat) < of_char x then 1
      else strings_Compare xs ys)"

text \<open>Reading a Go map at a key: the zero value when the key is absent.\<close>

definition mapIndex :: "(string \<rightharpoonup> string) \<Rightarrow> string \<Rightarrow> string" where
  "mapIndex m key = (case m key of None \<Rightarrow> [] | Some v \<Rightarrow> v)"

definition topologyConfigMap :: "api_decls \<Rightarrow> TopologyFileReconciler \<Rightarrow> Topology \<Rightarrow> ConfigMap" where
  "topologyConfigMap k r topology =
     \<lparr> cm_Name = ''topology'',
       cm_Namespace = tf_Namespace r,
       Labels = [TopologyLabel k \<mapsto> ''true''],
       Data = [''topology'' \<mapsto> ToDot topology] \<rparr>"

definition existingTopologyConfigMaps :: "ConfigMap \<Rightarrow> Topology \<Rightarrow> Object list" where
  "existingTopologyConfigMaps cm topology =
     filter (\<lambda>object. GetName object = cm_Name cm \<and> GetNamespace object = cm_Namespace cm
                      \<and> gvk_Kind (GetGroupVersionKind object) = Kind ConfigMapGroupKind)
            (Items topology)"

text \<open>
  The two type assertions on the first record found: it must be a
  \<open>controller.RuntimeObject\<close> that wraps a ConfigMap, whose data map is the result;
  \<open>None\<close> is the panic of a failed assertion.
\<close>

definition asConfigMapData :: "Object \<Rightarrow> (string \<rightharpoonup> string) option" where
  "asConfigMapData object =
     (case dyn object of
        RuntimeObjectPtr (ConfigMapPtr d) \<Rightarrow> Some d
      | _ \<Rightarrow> None)"

definition TopologyFile_Reconcile ::
  "api_decls \<Rightarrow> env \<Rightarrow> TopologyFileReconciler \<Rightarrow> ReconcileFunc" where
  "TopologyFile_Reconcile k env r events topology err =
     (let cm = topologyConfigMap k r topology;
          (unstructuredCM, derr) = Destruct env (ConfigMapObj cm);
          log0 = (case derr of
                    Some e \<Rightarrow> [LogError ''topology file'' e ''failed to destruct topology configmap'' []]
                  | None \<Rightarrow> []);
          existing = existingTopologyConfigMaps cm topology
      in if length existing = 0
         then (Returned,
               log0 @ [CreateCall ConfigMapsResource (cm_Namespace cm) unstructuredCM] @
               (case Create env ConfigMapsResource (cm_Namespace cm) unstructuredCM of
                  Some e \<Rightarrow>
                    if IsAlreadyExists e
                    then [LogInfo ''topology file''
                            ''already created topology configmap, must not be in topology yet'' []]
                    else [LogError ''topology file'' e ''failed to write topology configmap'' []]
                | None \<Rightarrow> []))
         else
           let log1 = log0 @
                 (if length existing > 1
                  then [LogInfo ''topology file''
                          ''multiple topology configmaps found, continuing but unexpected behaviour may occur'' []]
                  else [])
           in case asConfigMapData (hd existing) of
                None \<Rightarrow> (Panicked, log1)
              | Some cmTopologyData \<Rightarrow>
                  if (case cmTopologyData ''topology'' of
                        None \<Rightarrow> True
                      | Some d \<Rightarrow> strings_Compare d (mapIndex (Data cm) ''topology'') \<noteq> 0)
                  then (Returned,
                        log1 @ [UpdateCall ConfigMapsResource (cm_Namespace cm) unstructuredCM] @
                        (case Update env ConfigMapsResource (cm_Namespace cm) unstructuredCM of
                           Some e \<Rightarrow> [LogError ''topology file'' e ''failed to update topology configmap'' []]
                         | None \<Rightarrow> []))
                  else (Returned, log1))"

subsection \<open>EventLogger\<close>

text \<open>
  \<open>EventLogger.Log\<close>: one round of the loop per event. Calling a method on \<open>obj\<close> when
  both objects of the event are nil panics, and the loop ends there.
\<close>

definition eventObject :: "ResourceEvent \<Rightarrow> Object option" where
  "eventObject event = (case OldObject event of None \<Rightarrow> NewObject event | Some obj \<Rightarrow> Some obj)"

definition eventValues :: "env \<Rightarrow> ResourceEvent \<Rightarrow> Object \<Rightarrow> (string \<times> kv_val) list" where
  "eventValues env event obj =
     [(''type'', EvT (EventType event)),
      (''kind'', Str (gvk_Kind (GetGroupVersionKind obj))),
      (''namespace'', Str (GetNamespace obj)),
      (''name'', Str (GetName obj))] @
     (if EventType event = UpdateEvent \<and> V1Enabled env
      then [(''diff'', Str (cmp_Diff env (OldObject event) (NewObject event)))]
      else [])"

definition eventLines :: "env \<Rightarrow> go_error option \<Rightarrow> ResourceEvent \<Rightarrow> Object \<Rightarrow> effect list" where
  "eventLines env err event obj =
     LogInfo ''event logger'' ''new event'' (eventValues env event obj) #
     (case err of
        Some e \<Rightarrow> [LogError ''event logger'' e ''error passed to reconcile'' []]
      | None \<Rightarrow> [])"

fun EventLogger_Log :: "env \<Rightarrow> ReconcileFunc" where
  "EventLogger_Log env [] topology err = (Returned, [])"
| "EventLogger_Log env (event # resourceEvents) topology err =
     (case eventObject event of
        None \<Rightarrow> (Panicked, [])
      | Some obj \<Rightarrow>
          (case EventLogger_Log env resourceEvents topology err of
             (out, tr) \<Rightarrow> (out, eventLines env err event obj @ tr)))"

subsection \<open>Workflow and Subscription\<close>


definition andThen :: "outcome \<times> effect list \<Rightarrow> outcome \<times> effect list \<Rightarrow> outcome \<times> effect list" where
  "andThen a b =
     (case a of
        (Panicked, tr) \<Rightarrow> (Panicked, tr)
      | (Returned, tr) \<Rightarrow> (case b of (out, tr') \<Rightarrow> (out, tr @ tr')))"



text \<open>
  Modelled from the spec: \<open>controller.Subscription\<close>, \<open>controller.ResourceEventMatcher\<close>
  and \<open>Subscription.Reconcile\<close> (policy-machinery, not under src/). A subscription is a
  reconcile function with matchers of kind and event type (a matcher field left unset
  matches anything); the function is invoked, with the same arguments, only when an
  incoming event matches at least one matcher. An event is matched on the kind of its
  object, the old one when present, and on its type.
\<close>

record ResourceEventMatcher =
  m_Kind :: "GroupKind option"
  m_EventType :: "EventType option"

record Subscription =
  ReconcileFunc :: ReconcileFunc
  Events :: "ResourceEventMatcher list"




subsection \<open>The shipped composition\<close>





section \<open>Observations used in the statements\<close>

text \<open>The effects that follow the first create call of a trace.\<close>

fun afterCreate :: "effect list \<Rightarrow> effect list" where
  "afterCreate [] = []"
| "afterCreate (CreateCall r ns u # es) = es"
| "afterCreate (e # es) = afterCreate es"

definition isKind :: "GroupKind \<Rightarrow> Object \<Rightarrow> bool" where
  "isKind gk item = (gvk_Kind (GetGroupVersionKind item) = Kind gk)"

text \<open>Every root of kind Kuadrant is a pointer to a Kuadrant.\<close>

definition kuadrantTyped :: "api_decls \<Rightarrow> Object list \<Rightarrow> bool" where
  "kuadrantTyped k roots =
     list_all (\<lambda>item. isKind (KuadrantKind k) item \<longrightarrow> dyn item = KuadrantPtr) roots"


text \<open>
  The topology of the next pass when nothing changed but the snapshot record: a record
  that an update call replaced holds the data of the ConfigMap that was submitted.
\<close>

definition storedAfterUpdate :: "ConfigMap \<Rightarrow> Object \<Rightarrow> Object" where
  "storedAfterUpdate cm object = object\<lparr> dyn := RuntimeObjectPtr (ConfigMapPtr (Data cm)) \<rparr>"

definition nextTopology :: "api_decls \<Rightarrow> env \<Rightarrow> TopologyFileReconciler \<Rightarrow> Topology \<Rightarrow> Topology" where
  "nextTopology k env r topology =
     (case updateCalls (snd (TopologyFile_Reconcile k env r [] topology None)) of
        (res, ns, Some (Unstructured (ConfigMapObj cm))) # calls \<Rightarrow>
          (case Update env res ns (Some (Unstructured (ConfigMapObj cm))) of
             None \<Rightarrow>
               topology\<lparr> Items :=
                 map (\<lambda>object. if GetName object = cm_Name cm \<and> GetNamespace object = cm_Namespace cm
                                   \<and> gvk_Kind (GetGroupVersionKind object) = Kind ConfigMapGroupKind
                                then storedAfterUpdate cm object else object)
                     (Items topology) \<rparr>
           | Some e \<Rightarrow> topology)
      | _ \<Rightarrow> topology)"


text \<open>The messages and key/value pairs of the info lines of a trace.\<close>

fun infoLogs :: "effect list \<Rightarrow> (string \<times> (string \<times> kv_val) list) list" where
  "infoLogs [] = []"
| "infoLogs (LogInfo n m kvs # es) = (m, kvs) # infoLogs es"
| "infoLogs (e # es) = infoLogs es"

text \<open>The error line written when \<open>Destruct\<close> returned an error.\<close>

definition destructLog ::
  "string \<Rightarrow> string \<Rightarrow> (string \<times> kv_val) list \<Rightarrow> go_error option \<Rightarrow> effect list" where
  "destructLog n m kvs derr = (case derr of Some e \<Rightarrow> [LogError n e m kvs] | None \<Rightarrow> [])"

text \<open>The line written when more than one snapshot record is found.\<close>

definition multiLog :: "Object list \<Rightarrow> effect list" where
  "multiLog existing =
     (if length existing > 1
      then [LogInfo ''topology file''
              ''multiple topology configmaps found, continuing but unexpected behaviour may occur'' []]
      else [])"

text \<open>
  The three conditions of the backend ensurer: a root of the Kuadrant kind exists, the
  first one is not marked for deletion, and no object of the Authorino kind is in the
  topology.
\<close>

definition ensurerCondition :: "api_decls \<Rightarrow> Topology \<Rightarrow> bool" where
  "ensurerCondition k topology =
     (let kobjs = filter (isKind (KuadrantKind k)) (Roots topology)
      in kobjs \<noteq> [] \<and> GetDeletionTimestamp (hd kobjs) = None
         \<and> filter (isKind (AuthorinoKind k)) (Items topology) = [])"

text \<open>The test that lets \<open>reconcileStatus\<close> skip the write.\<close>

definition upToDate ::
  "(AuthPolicyStatus \<Rightarrow> AuthPolicyStatus \<Rightarrow> bool) \<Rightarrow> AuthPolicy \<Rightarrow> AuthPolicyStatus \<Rightarrow> bool" where
  "upToDate Equals ap newStatus =
     (Equals (ap_Status ap) newStatus \<and> Generation ap = ObservedGeneration (ap_Status ap))"


section \<open>Example inputs\<close>

definition ex_decls :: api_decls where
  "ex_decls = \<lparr> KuadrantKind = \<lparr> Group = ''kuadrant.io'', Kind = ''Kuadrant'' \<rparr>,
                AuthorinoKind = \<lparr> Group = ''operator.authorino.kuadrant.io'', Kind = ''Authorino'' \<rparr>,
                TopologyLabel = ''kuadrant.io/topology'' \<rparr>"

text \<open>Surroundings in which every conversion and every call succeeds.\<close>

definition ex_env :: env where
  "ex_env = \<lparr> Destruct = (\<lambda>obj. (Some (Unstructured obj), None)),
              Create = (\<lambda>res ns u. None),
              Update = (\<lambda>res ns u. None),
              V1Enabled = False,
              cmp_Diff = (\<lambda>old new. []) \<rparr>"

text \<open>Surroundings in which a create call is answered with "already exists".\<close>

definition ex_env_exists :: env where
  "ex_env_exists = ex_env\<lparr> Create := (\<lambda>res ns u. Some (StatusError StatusReasonAlreadyExists ''already exists'')) \<rparr>"

text \<open>Surroundings in which \<open>Destruct\<close> fails: it returns a nil pointer and an error.\<close>

definition ex_env_destruct_fails :: env where
  "ex_env_destruct_fails = ex_env\<lparr> Destruct := (\<lambda>obj. (None, Some (PlainError ''cannot convert''))) \<rparr>"

definition ex_kuadrant :: Object where
  "ex_kuadrant = \<lparr> GetGroupVersionKind =
                     \<lparr> gvk_Group = ''kuadrant.io'', gvk_Version = ''v1beta1'', gvk_Kind = ''Kuadrant'' \<rparr>,
                   GetNamespace = ''kuadrant-system'', GetName = ''kuadrant'', GetUID = ''uid-1'',
                   GetDeletionTimestamp = None, dyn = KuadrantPtr \<rparr>"

text \<open>A snapshot record in the operator's namespace with the given data.\<close>

definition ex_record :: "(string \<rightharpoonup> string) \<Rightarrow> Object" where
  "ex_record d = \<lparr> GetGroupVersionKind =
                     \<lparr> gvk_Group = [], gvk_Version = ''v1'', gvk_Kind = ''ConfigMap'' \<rparr>,
                   GetNamespace = ''kuadrant-system'', GetName = ''topology'', GetUID = ''uid-2'',
                   GetDeletionTimestamp = None, dyn = RuntimeObjectPtr (ConfigMapPtr d) \<rparr>"

text \<open>A topology with one live Kuadrant root and nothing else.\<close>

definition ex_topology :: Topology where
  "ex_topology = \<lparr> Roots = [ex_kuadrant], Items = [ex_kuadrant], ToDot = ''strict digraph {}'' \<rparr>"

text \<open>The same with a snapshot record that holds an older serialization.\<close>

definition ex_topology_stale :: Topology where
  "ex_topology_stale =
     \<lparr> Roots = [ex_kuadrant], Items = [ex_kuadrant, ex_record [''topology'' \<mapsto> ''old'']],
       ToDot = ''strict digraph {}'' \<rparr>"

definition ex_reconciler :: TopologyFileReconciler where
  "ex_reconciler = \<lparr> tf_Namespace = ''kuadrant-system'' \<rparr>"

definition ex_created :: ResourceEvent where
  "ex_created = \<lparr> EventType = CreateEvent, OldObject = None, NewObject = Some ex_kuadrant \<rparr>"


text \<open>An update event that carries both objects, the new one renamed and moved.\<close>

definition ex_renamed :: Object where
  "ex_renamed = ex_kuadrant\<lparr> GetNamespace := ''other-system'', GetName := ''renamed'' \<rparr>"

definition ex_updated :: ResourceEvent where
  "ex_updated = \<lparr> EventType = UpdateEvent, OldObject = Some ex_kuadrant,
                  NewObject = Some ex_renamed \<rparr>"

text \<open>Surroundings at verbosity 1, with a fixed diff text.\<close>

definition ex_env_verbose :: env where
  "ex_env_verbose = ex_env\<lparr> V1Enabled := True, cmp_Diff := (\<lambda>old new. ''-old +new'') \<rparr>"

definition ex_policy :: AuthPolicy where
  "ex_policy = \<lparr> Name = ''toystore'', Namespace = ''default'', Generation = 2,
                 TargetRefKind = ''HTTPRoute'',
                 ap_Status = \<lparr> Conditions = [], ObservedGeneration = 1 \<rparr> \<rparr>"

text \<open>The example policy after its first status write at time 7.\<close>

definition ex_policy_written :: AuthPolicy where
  "ex_policy_written = ex_policy\<lparr> ap_Status := \<lparr> Conditions = [\<lparr> Type = ''Available'', Status = ConditionTrue,
            CondObservedGeneration = 0, LastTransitionTime = 7,
            Reason = ''HTTPRouteProtected'', Message = ''HTTPRoute is protected'' \<rparr>],
          ObservedGeneration = 2 \<rparr> \<rparr>"


text \<open>A comparison of two statuses that reads the conditions only.\<close>

definition ex_Equals :: "AuthPolicyStatus \<Rightarrow> AuthPolicyStatus \<Rightarrow> bool" where
  "ex_Equals s t = (Conditions s = Conditions t)"

definition ex_limitador :: "(nat, string, string, string) Limitador" where
  "ex_limitador = \<lparr> Meta = ''limitador'',
                    Spec = \<lparr> Affinity = 0, PodDisruptionBudget = 0, Replicas = 1,
                             ResourceRequirements = 0, Storage = 0, OtherSpec = ''v1'' \<rparr>,
                    LimitadorStatus = ''ready'' \<rparr>"



section \<open>Properties\<close>

subsection \<open>Status conditions\<close>

lemma Find_Set_same:
  "\<exists>c. FindStatusCondition (SetStatusCondition now cs new) (Type new) = Some c
       \<and> Type c = Type new \<and> Status c = Status new
       \<and> Reason c = Reason new \<and> Message c = Message new"
  by (induction cs) (auto simp: mergeCondition_def Let_def)

lemma availableCondition_specErr:
  "availableCondition kind (Some e) ready =
     \<lparr> Type = ''Available'', Status = ConditionFalse, CondObservedGeneration = 0,
       LastTransitionTime = 0, Reason = ''ReconciliationError'', Message = Error e \<rparr>"
  by (simp add: availableCondition_def APAvailableConditionType_def)

lemma availableCondition_notReady:
  "availableCondition kind None False =
     \<lparr> Type = ''Available'', Status = ConditionFalse, CondObservedGeneration = 0,
       LastTransitionTime = 0, Reason = ''AuthSchemeNotReady'',
       Message = ''AuthScheme is not ready yet'' \<rparr>"
  by (simp add: availableCondition_def APAvailableConditionType_def)

lemma availableCondition_protected:
  "availableCondition kind None True =
     \<lparr> Type = ''Available'', Status = ConditionTrue, CondObservedGeneration = 0,
       LastTransitionTime = 0, Reason = kind @ ''Protected'',
       Message = kind @ '' is protected'' \<rparr>"
  by (simp add: availableCondition_def APAvailableConditionType_def)

lemma availableCondition_Type: "Type (availableCondition kind specErr ready) = ''Available''"
  by (simp add: availableCondition_def APAvailableConditionType_def Let_def split: option.splits)

lemma calculateStatus_available:
  "availableOf (calculateStatus now ap specErr ready) =
     Some (Status (availableCondition (TargetRefKind ap) specErr ready),
           Reason (availableCondition (TargetRefKind ap) specErr ready),
           Message (availableCondition (TargetRefKind ap) specErr ready))"
proof -
  let ?new = "availableCondition (TargetRefKind ap) specErr ready"
  obtain c where c:
    "FindStatusCondition (SetStatusCondition now (Conditions (ap_Status ap)) ?new) (Type ?new) = Some c"
    "Status c = Status ?new" "Reason c = Reason ?new" "Message c = Message ?new"
    using Find_Set_same by blast
  have "Conditions (calculateStatus now ap specErr ready) =
          SetStatusCondition now (Conditions (ap_Status ap)) ?new"
    by (simp add: calculateStatus_def CopyConditions_def Let_def)
  with c show ?thesis
    by (simp add: availableOf_def availableCondition_Type APAvailableConditionType_def)
qed

text \<open>
  C1. For every target kind, policy object, spec error and readiness flag, the
  availability condition is decided in this order: with a spec error it is False with
  reason ReconciliationError and the error's text as message, whatever the readiness
  flag; without one and with the dependency not ready it is False with the not-ready
  reason (AuthSchemeNotReady); otherwise it is True with reason <TargetKind>Protected and
  message "<TargetKind> is protected". \<open>availableCondition\<close> builds that condition, and
  the status that \<open>calculateStatus\<close> computes carries it as its condition of type
  Available, for the policy's target kind.
\<close>

theorem calculateStatus_precedence:
  "availableCondition kind (Some e) ready =
     \<lparr> Type = ''Available'', Status = ConditionFalse, CondObservedGeneration = 0,
       LastTransitionTime = 0, Reason = ''ReconciliationError'', Message = Error e \<rparr>
   \<and> availableCondition kind None False =
     \<lparr> Type = ''Available'', Status = ConditionFalse, CondObservedGeneration = 0,
       LastTransitionTime = 0, Reason = ''AuthSchemeNotReady'',
       Message = ''AuthScheme is not ready yet'' \<rparr>
   \<and> availableCondition kind None True =
     \<lparr> Type = ''Available'', Status = ConditionTrue, CondObservedGeneration = 0,
       LastTransitionTime = 0, Reason = kind @ ''Protected'',
       Message = kind @ '' is protected'' \<rparr>
   \<and> availableOf (calculateStatus now ap (Some e) ready)
     = Some (ConditionFalse, ''ReconciliationError'', Error e)
   \<and> availableOf (calculateStatus now ap None False)
     = Some (ConditionFalse, ''AuthSchemeNotReady'', ''AuthScheme is not ready yet'')
   \<and> availableOf (calculateStatus now ap None True)
     = Some (ConditionTrue, TargetRefKind ap @ ''Protected'', TargetRefKind ap @ '' is protected'')"
  by (simp add: calculateStatus_available availableCondition_specErr
        availableCondition_notReady availableCondition_protected)

theorem calculateStatus_precedence_witness:
  "availableCondition ''HTTPRoute'' (Some (PlainError ''boom'')) True =
     \<lparr> Type = ''Available'', Status = ConditionFalse, CondObservedGeneration = 0,
       LastTransitionTime = 0, Reason = ''ReconciliationError'', Message = ''boom'' \<rparr>
   \<and> availableOf (calculateStatus 7 ex_policy (Some (PlainError ''boom'')) True)
     = Some (ConditionFalse, ''ReconciliationError'', ''boom'')
   \<and> availableOf (calculateStatus 7 ex_policy None False)
     = Some (ConditionFalse, ''AuthSchemeNotReady'', ''AuthScheme is not ready yet'')
   \<and> availableOf (calculateStatus 7 ex_policy None True)
     = Some (ConditionTrue, ''HTTPRouteProtected'', ''HTTPRoute is protected'')"
  using calculateStatus_precedence [of "''HTTPRoute''" "PlainError ''boom''" True 7 ex_policy]
  by (simp add: ex_policy_def)

subsection \<open>Selective spec merge\<close>

text \<open>
  C3. For every pair of Limitador objects the mutator returns no error, and
  \<open>changed\<close> is true exactly when one of Affinity, PodDisruptionBudget, Replicas,
  ResourceRequirements and Storage differs between the existing and the desired spec,
  which is when the subsets that \<open>limitadorSpecSubSet\<close> extracts (these five fields)
  differ. When none differs the existing object is left as it was; in particular a
  desired object that differs from the existing one only outside the allow-list gives
  \<open>changed = false\<close> and the existing object unchanged. When one differs, each of the
  five fields of the existing object becomes that of the desired one, and the other spec
  fields, the metadata and the status are untouched.
\<close>

theorem LimitadorMutator_selective:
  "LimitadorMutator (LimitadorPtr existing) (LimitadorPtr desired) = (existingObj', changed, err) \<Longrightarrow>
     err = None
     \<and> changed = (Affinity (Spec existing) \<noteq> Affinity (Spec desired)
                  \<or> PodDisruptionBudget (Spec existing) \<noteq> PodDisruptionBudget (Spec desired)
                  \<or> Replicas (Spec existing) \<noteq> Replicas (Spec desired)
                  \<or> ResourceRequirements (Spec existing) \<noteq> ResourceRequirements (Spec desired)
                  \<or> Storage (Spec existing) \<noteq> Storage (Spec desired))
     \<and> changed = (limitadorSpecSubSet (Spec existing) \<noteq> limitadorSpecSubSet (Spec desired))
     \<and> (\<exists>existing'. existingObj' = LimitadorPtr existing'
           \<and> (if changed
               then Affinity (Spec existing') = Affinity (Spec desired)
                    \<and> PodDisruptionBudget (Spec existing') = PodDisruptionBudget (Spec desired)
                    \<and> Replicas (Spec existing') = Replicas (Spec desired)
                    \<and> ResourceRequirements (Spec existing') = ResourceRequirements (Spec desired)
                    \<and> Storage (Spec existing') = Storage (Spec desired)
                    \<and> limitadorSpecSubSet (Spec existing') = limitadorSpecSubSet (Spec desired)
               else existing' = existing)
           \<and> OtherSpec (Spec existing') = OtherSpec (Spec existing)
           \<and> Meta existing' = Meta existing
           \<and> LimitadorStatus existing' = LimitadorStatus existing)
     \<and> LimitadorMutator (LimitadorPtr existing)
          (LimitadorPtr (existing\<lparr> Meta := m, Spec := (Spec existing)\<lparr> OtherSpec := r \<rparr>,
                                   LimitadorStatus := s \<rparr>))
        = (LimitadorPtr existing, False, None)
     \<and> limitadorSpecSubSet (Spec existing) =
         \<lparr> sub_Affinity = Affinity (Spec existing),
           sub_PodDisruptionBudget = PodDisruptionBudget (Spec existing),
           sub_Replicas = Replicas (Spec existing),
           sub_ResourceRequirements = ResourceRequirements (Spec existing),
           sub_Storage = Storage (Spec existing) \<rparr>"
  by (auto simp: Let_def limitadorSpecSubSet_def split: if_splits)

theorem LimitadorMutator_selective_witness:
  "LimitadorMutator (LimitadorPtr ex_limitador)
     (LimitadorPtr (ex_limitador\<lparr> Spec := (Spec ex_limitador)\<lparr> Storage := 5, OtherSpec := ''v2'' \<rparr> \<rparr>))
   = (LimitadorPtr (ex_limitador\<lparr> Spec := (Spec ex_limitador)\<lparr> Storage := 5 \<rparr> \<rparr>), True, None)
   \<and> LimitadorMutator (LimitadorPtr ex_limitador)
        (LimitadorPtr (ex_limitador\<lparr> Meta := ''other'',
                          Spec := (Spec ex_limitador)\<lparr> OtherSpec := ''v2'' \<rparr>,
                          LimitadorStatus := ''unknown'' \<rparr>))
      = (LimitadorPtr ex_limitador, False, None)"
proof -
  let ?desired = "ex_limitador\<lparr> Spec := (Spec ex_limitador)\<lparr> Storage := 5, OtherSpec := ''v2'' \<rparr> \<rparr>"
  obtain existingObj' changed err where
    run: "LimitadorMutator (LimitadorPtr ex_limitador) (LimitadorPtr ?desired) =
            (existingObj', changed, err)"
    by (cases "LimitadorMutator (LimitadorPtr ex_limitador) (LimitadorPtr ?desired)") blast
  note facts = LimitadorMutator_selective [OF run, where m = "''other''" and r = "''v2''"
                 and s = "''unknown''"]
  have differs: "Storage (Spec ex_limitador) \<noteq> Storage (Spec ?desired)"
    by (simp add: ex_limitador_def)
  from facts differs have changed: "changed" and err: "err = None" by blast+
  from facts changed obtain existing' where e':
    "existingObj' = LimitadorPtr existing'"
    "Affinity (Spec existing') = Affinity (Spec ?desired)"
    "PodDisruptionBudget (Spec existing') = PodDisruptionBudget (Spec ?desired)"
    "Replicas (Spec existing') = Replicas (Spec ?desired)"
    "ResourceRequirements (Spec existing') = ResourceRequirements (Spec ?desired)"
    "Storage (Spec existing') = Storage (Spec ?desired)"
    "OtherSpec (Spec existing') = OtherSpec (Spec ex_limitador)"
    "Meta existing' = Meta ex_limitador"
    "LimitadorStatus existing' = LimitadorStatus ex_limitador"
    by auto
  have spec: "Spec existing' = (Spec ex_limitador)\<lparr> Storage := 5 \<rparr>"
    using e' by (cases "Spec existing'") (simp add: ex_limitador_def)
  have "existing' = ex_limitador\<lparr> Spec := (Spec ex_limitador)\<lparr> Storage := 5 \<rparr> \<rparr>"
    using e' spec by (cases existing') (simp add: ex_limitador_def)
  with run e'(1) changed err have first:
    "LimitadorMutator (LimitadorPtr ex_limitador) (LimitadorPtr ?desired)
       = (LimitadorPtr (ex_limitador\<lparr> Spec := (Spec ex_limitador)\<lparr> Storage := 5 \<rparr> \<rparr>), True, None)"
    by simp
  from facts have outside: "LimitadorMutator (LimitadorPtr ex_limitador)
        (LimitadorPtr (ex_limitador\<lparr> Meta := ''other'',
                          Spec := (Spec ex_limitador)\<lparr> OtherSpec := ''v2'' \<rparr>,
                          LimitadorStatus := ''unknown'' \<rparr>))
      = (LimitadorPtr ex_limitador, False, None)"
    by (elim conjE)
  from first outside show ?thesis by (rule conjI)
qed

subsection \<open>Reconciling the status block\<close>

lemma statusWrites_append: "statusWrites (xs @ ys) = statusWrites xs @ statusWrites ys"
  by (induction xs rule: statusWrites.induct) auto

lemma writeStatus_writes:
  "statusWrites (snd (snd (writeStatus updateErr ap newStatus))) =
     [ap\<lparr> ap_Status := newStatus\<lparr> ObservedGeneration := Generation ap \<rparr> \<rparr>]"
  by (simp add: writeStatus_def Let_def statusWrites_append split: option.splits)

lemma writeStatus_ap:
  "fst (snd (writeStatus updateErr ap newStatus)) =
     ap\<lparr> ap_Status := newStatus\<lparr> ObservedGeneration := Generation ap \<rparr> \<rparr>"
  by (simp add: writeStatus_def Let_def split: option.splits)

lemma writeStatus_result:
  "fst (writeStatus updateErr ap newStatus) =
     (case updateErr of
        None \<Rightarrow> (\<lparr> Requeue = False \<rparr>, None)
      | Some e \<Rightarrow> if IsConflict e then (\<lparr> Requeue = True \<rparr>, None)
                  else (\<lparr> Requeue = False \<rparr>, Some (Wrapped ''failed to update status: '' e)))"
  by (simp add: writeStatus_def Let_def split: option.splits)

lemma reconcileStatus_reached:
  assumes "fetchReady specErr getAuthConfig = Inr ready"
  shows "reconcileStatus Equals now getAuthConfig updateErr ap specErr =
     (let newStatus = calculateStatus now ap specErr ready;
          log1 = [V1Info ''Reconciling AuthPolicy status'' [(''spec error'', E specErr)],
                  V1Info ''Status'' [(''status is different'', B (\<not> Equals (ap_Status ap) newStatus))],
                  V1Info ''Status'' [(''generation is different'',
                                        B (Generation ap \<noteq> ObservedGeneration (ap_Status ap)))],
                  V1Info ''Status'' [(''AuthConfig is ready'', B ready)]]
      in if upToDate Equals ap newStatus
         then ((\<lparr> Requeue = False \<rparr>, None), ap,
                log1 @ [V1Info ''Status up-to-date. No changes required.'' []])
         else (fst (writeStatus updateErr ap newStatus),
               fst (snd (writeStatus updateErr ap newStatus)),
               log1 @ snd (snd (writeStatus updateErr ap newStatus))))"
  using assms by (simp add: reconcileStatus_def Let_def upToDate_def split: prod.splits)

lemma reconcileStatus_fetch_failed:
  assumes "fetchReady specErr getAuthConfig = Inl e"
  shows "reconcileStatus Equals now getAuthConfig updateErr ap specErr =
     ((\<lparr> Requeue = False \<rparr>, Some e), ap,
      [V1Info ''Reconciling AuthPolicy status'' [(''spec error'', E specErr)]])"
  using assms by (simp add: reconcileStatus_def Let_def)

text \<open>
  C4. Once the new status is computed (there is a spec error, or the AuthConfig was
  fetched and gave the readiness flag), \<open>reconcileStatus\<close> issues no status write when
  \<open>Equals\<close> holds between the current and the new status and the object's Generation
  equals the current \<open>Status.ObservedGeneration\<close>; in every other case it issues exactly
  one, of the object with the new status whose ObservedGeneration is set to the object's
  Generation. So every status write, on any path, submits an object whose
  \<open>Status.ObservedGeneration\<close> equals its Generation, and that object is the one the
  function leaves behind. This holds for every comparison \<open>Equals\<close>, hence for one that
  ignores ObservedGeneration.
\<close>

theorem reconcileStatus_observedGeneration:
  "(fetchReady specErr getAuthConfig = Inr ready \<longrightarrow>
      statusWrites (snd (snd (reconcileStatus Equals now getAuthConfig updateErr ap specErr))) =
        (if Equals (ap_Status ap) (calculateStatus now ap specErr ready)
            \<and> Generation ap = ObservedGeneration (ap_Status ap)
         then []
         else [ap\<lparr> ap_Status := (calculateStatus now ap specErr ready)
                       \<lparr> ObservedGeneration := Generation ap \<rparr> \<rparr>]))
   \<and> (\<forall>w \<in> set (statusWrites (snd (snd (reconcileStatus Equals now getAuthConfig updateErr ap specErr)))).
        ObservedGeneration (ap_Status w) = Generation ap \<and> Generation w = Generation ap
        \<and> fst (snd (reconcileStatus Equals now getAuthConfig updateErr ap specErr)) = w)"
proof (cases "fetchReady specErr getAuthConfig")
  case (Inl e)
  then show ?thesis by (simp add: reconcileStatus_fetch_failed)
next
  case (Inr r)
  then show ?thesis
    by (simp add: reconcileStatus_reached Let_def upToDate_def statusWrites_append
          writeStatus_writes writeStatus_ap)
qed


lemma ex_calc: "calculateStatus 7 ex_policy None True = \<lparr> Conditions = [\<lparr> Type = ''Available'', Status = ConditionTrue,
            CondObservedGeneration = 0, LastTransitionTime = 7,
            Reason = ''HTTPRouteProtected'', Message = ''HTTPRoute is protected'' \<rparr>],
          ObservedGeneration = 1 \<rparr>"
  by (simp add: calculateStatus_def ex_policy_def CopyConditions_def availableCondition_def APAvailableConditionType_def Let_def)

theorem reconcileStatus_observedGeneration_witness:
  "statusWrites (snd (snd (reconcileStatus ex_Equals 7 (Inr True) None ex_policy None))) = [ex_policy_written]
   \<and> fst (snd (reconcileStatus ex_Equals 7 (Inr True) None ex_policy None)) = ex_policy_written
   \<and> statusWrites (snd (snd (reconcileStatus ex_Equals 7 (Inr True) None ex_policy_written None))) = []"
proof -
  have f: "fetchReady None (Inr True) = Inr True" by (simp add: fetchReady_def)
  have g: "Generation ex_policy \<noteq> ObservedGeneration (ap_Status ex_policy)"
    by (simp add: ex_policy_def)
  have c2: "calculateStatus 7 ex_policy_written None True = ap_Status ex_policy_written"
    by (simp add: calculateStatus_def ex_policy_written_def ex_policy_def CopyConditions_def availableCondition_def APAvailableConditionType_def Let_def mergeCondition_def)
  have g2: "Generation ex_policy_written = ObservedGeneration (ap_Status ex_policy_written)" by (simp add: ex_policy_written_def ex_policy_def)
  have w: "ex_policy\<lparr> ap_Status := (calculateStatus 7 ex_policy None True)
                       \<lparr> ObservedGeneration := Generation ex_policy \<rparr> \<rparr> = ex_policy_written"
    unfolding ex_calc by (simp add: ex_policy_written_def ex_policy_def)
  from reconcileStatus_observedGeneration [of None "Inr True" True ex_Equals 7 None ex_policy] f g w
  have 1: "statusWrites (snd (snd (reconcileStatus ex_Equals 7 (Inr True) None ex_policy None))) = [ex_policy_written]"
    and 2: "fst (snd (reconcileStatus ex_Equals 7 (Inr True) None ex_policy None)) = ex_policy_written"
    by simp_all
  from reconcileStatus_observedGeneration [of None "Inr True" True ex_Equals 7 None ex_policy_written] f g2 c2
  have 3: "statusWrites (snd (snd (reconcileStatus ex_Equals 7 (Inr True) None ex_policy_written None))) = []"
    by (simp add: ex_Equals_def)
  from 1 2 3 show ?thesis by simp
qed

text \<open>
  C7. When the status update call is made and fails: with a conflict error
  \<open>reconcileStatus\<close> returns a requeue result and no error; with any other error it
  returns that error, wrapped with the text "failed to update status: ".
\<close>

theorem reconcileStatus_update_errors:
  assumes "statusWrites (snd (snd (reconcileStatus Equals now getAuthConfig (Some e) ap specErr))) \<noteq> []"
  shows "fst (reconcileStatus Equals now getAuthConfig (Some e) ap specErr) =
           (if IsConflict e then (\<lparr> Requeue = True \<rparr>, None)
            else (\<lparr> Requeue = False \<rparr>, Some (Wrapped ''failed to update status: '' e)))"
proof (cases "fetchReady specErr getAuthConfig")
  case (Inl e)
  with assms show ?thesis by (simp add: reconcileStatus_fetch_failed)
next
  case (Inr r)
  with assms show ?thesis
    by (simp add: reconcileStatus_reached Let_def statusWrites_append writeStatus_result
          split: if_splits)
qed

lemma ex_policy_is_written:
  "statusWrites (snd (snd (reconcileStatus ex_Equals 7 (Inr True) (Some e) ex_policy None))) \<noteq> []"
proof -
  have f: "fetchReady None (Inr True) = Inr True" by (simp add: fetchReady_def)
  have g: "\<not> upToDate ex_Equals ex_policy (calculateStatus 7 ex_policy None True)"
    by (simp add: upToDate_def ex_policy_def)
  show ?thesis
    by (simp add: reconcileStatus_reached [OF f] g Let_def statusWrites_append writeStatus_writes)
qed

theorem reconcileStatus_update_errors_witness:
  "fst (reconcileStatus ex_Equals 7 (Inr True)
          (Some (StatusError StatusReasonConflict ''the object has been modified'')) ex_policy None)
     = (\<lparr> Requeue = True \<rparr>, None)
   \<and> fst (reconcileStatus ex_Equals 7 (Inr True)
          (Some (StatusError StatusReasonUnknown ''connection refused'')) ex_policy None)
     = (\<lparr> Requeue = False \<rparr>,
        Some (Wrapped ''failed to update status: ''
               (StatusError StatusReasonUnknown ''connection refused'')))"
  using reconcileStatus_update_errors [OF ex_policy_is_written,
          of "StatusError StatusReasonConflict ''the object has been modified''"]
        reconcileStatus_update_errors [OF ex_policy_is_written,
          of "StatusError StatusReasonUnknown ''connection refused''"]
  by (simp add: IsConflict_def)

subsection \<open>Traces\<close>

lemma createCalls_append: "createCalls (xs @ ys) = createCalls xs @ createCalls ys"
  by (induction xs rule: createCalls.induct) auto

lemma updateCalls_append: "updateCalls (xs @ ys) = updateCalls xs @ updateCalls ys"
  by (induction xs rule: updateCalls.induct) auto

lemma errorLogs_append: "errorLogs (xs @ ys) = errorLogs xs @ errorLogs ys"
  by (induction xs rule: errorLogs.induct) auto

lemma infoLogs_append: "infoLogs (xs @ ys) = infoLogs xs @ infoLogs ys"
  by (induction xs rule: infoLogs.induct) auto

lemma afterCreate_append:
  "afterCreate (xs @ ys) = (if createCalls xs = [] then afterCreate ys else afterCreate xs @ ys)"
  by (induction xs rule: afterCreate.induct) auto

lemma createCalls_destructLog [simp]: "createCalls (destructLog n m kvs derr) = []"
  by (simp add: destructLog_def split: option.splits)

lemma updateCalls_destructLog [simp]: "updateCalls (destructLog n m kvs derr) = []"
  by (simp add: destructLog_def split: option.splits)

lemma afterCreate_destructLog [simp]: "afterCreate (destructLog n m kvs derr) = []"
  by (simp add: destructLog_def split: option.splits)

lemma createCalls_multiLog [simp]: "createCalls (multiLog existing) = []"
  by (simp add: multiLog_def)

lemma updateCalls_multiLog [simp]: "updateCalls (multiLog existing) = []"
  by (simp add: multiLog_def)

lemma strings_Compare_eq: "strings_Compare a b = 0 \<longleftrightarrow> a = b"
  by (induction a b rule: strings_Compare.induct) auto

subsection \<open>The event recorder\<close>

lemma errorLogs_eventLines:
  "errorLogs (eventLines env err event obj) =
     (case err of Some e \<Rightarrow> [(e, ''error passed to reconcile'')] | None \<Rightarrow> [])"
  by (simp add: eventLines_def split: option.splits)

lemma infoLogs_eventLines:
  "infoLogs (eventLines env err event obj) = [(''new event'', eventValues env event obj)]"
  by (simp add: eventLines_def split: option.splits)

lemma EventLogger_Log_present:
  assumes "list_all (\<lambda>event. OldObject event \<noteq> None \<or> NewObject event \<noteq> None) resourceEvents"
  shows "EventLogger_Log env resourceEvents topology err =
           (Returned,
            concat (map (\<lambda>event.
              case OldObject event of
                Some old \<Rightarrow> eventLines env err event old
              | None \<Rightarrow> (case NewObject event of
                           Some new \<Rightarrow> eventLines env err event new
                         | None \<Rightarrow> [])) resourceEvents))"
  using assms
proof (induction resourceEvents)
  case Nil
  then show ?case by simp
next
  case (Cons event rest)
  then have rest: "EventLogger_Log env rest topology err =
           (Returned,
            concat (map (\<lambda>event.
              case OldObject event of
                Some old \<Rightarrow> eventLines env err event old
              | None \<Rightarrow> (case NewObject event of
                           Some new \<Rightarrow> eventLines env err event new
                         | None \<Rightarrow> [])) rest))"
    by simp
  from Cons.prems have "OldObject event \<noteq> None \<or> NewObject event \<noteq> None" by simp
  then show ?case
    by (cases "OldObject event"; cases "NewObject event") (simp_all add: rest eventObject_def)
qed

lemma EventLogger_Log_counts:
  assumes "list_all (\<lambda>event. OldObject event \<noteq> None \<or> NewObject event \<noteq> None) resourceEvents"
  shows "length (infoLogs (snd (EventLogger_Log env resourceEvents topology err))) = length resourceEvents
       \<and> errorLogs (snd (EventLogger_Log env resourceEvents topology err)) =
             (case err of
                Some e \<Rightarrow> replicate (length resourceEvents) (e, ''error passed to reconcile'')
              | None \<Rightarrow> [])"
  using assms
proof (induction resourceEvents)
  case Nil
  then show ?case by (simp split: option.splits)
next
  case (Cons event rest)
  from Cons.prems obtain obj where obj: "eventObject event = Some obj"
    by (cases "OldObject event"; cases "NewObject event") (auto simp: eventObject_def)
  from Cons have IH: "length (infoLogs (snd (EventLogger_Log env rest topology err))) = length rest"
     "errorLogs (snd (EventLogger_Log env rest topology err)) =
             (case err of
                Some e \<Rightarrow> replicate (length rest) (e, ''error passed to reconcile'')
              | None \<Rightarrow> [])"
    by simp_all
  have step: "snd (EventLogger_Log env (event # rest) topology err) =
                eventLines env err event obj @ snd (EventLogger_Log env rest topology err)"
    by (simp add: obj split: prod.splits)
  show ?case
    unfolding step
    by (simp add: IH infoLogs_append infoLogs_eventLines errorLogs_append errorLogs_eventLines
          split: option.splits)
qed

lemma EventLogger_Log_panics:
  "\<not> list_all (\<lambda>event. OldObject event \<noteq> None \<or> NewObject event \<noteq> None) resourceEvents
   \<Longrightarrow> fst (EventLogger_Log env resourceEvents topology err) = Panicked"
  by (induction resourceEvents) (auto simp: eventObject_def split: option.splits prod.splits)

text \<open>
  C10. For every batch in which each event carries an old or a new object,
  \<open>EventLogger.Log\<close> returns without a panic. Its trace is, event by event and in order:
  one "new event" info line with the event's type and the kind, namespace and name of
  the old object when there is one, and of the new object otherwise (and the diff of the
  two objects for an update event at verbosity 1), followed by one "error passed to
  reconcile" error line when an upstream error was passed. So there are as many info lines
  as events, and the upstream error is logged once per event: not at all for the empty
  batch.
\<close>

theorem EventLogger_Log_total:
  assumes "list_all (\<lambda>event. OldObject event \<noteq> None \<or> NewObject event \<noteq> None) resourceEvents"
  shows "EventLogger_Log env resourceEvents topology err =
           (Returned,
            concat (map (\<lambda>event.
              case OldObject event of
                Some old \<Rightarrow>
                  LogInfo ''event logger'' ''new event''
                    ([(''type'', EvT (EventType event)),
                      (''kind'', Str (gvk_Kind (GetGroupVersionKind old))),
                      (''namespace'', Str (GetNamespace old)),
                      (''name'', Str (GetName old))] @
                     (if EventType event = UpdateEvent \<and> V1Enabled env
                      then [(''diff'', Str (cmp_Diff env (OldObject event) (NewObject event)))]
                      else []))
                  # (case err of
                       Some e \<Rightarrow> [LogError ''event logger'' e ''error passed to reconcile'' []]
                     | None \<Rightarrow> [])
              | None \<Rightarrow>
                  (case NewObject event of
                     Some new \<Rightarrow>
                       LogInfo ''event logger'' ''new event''
                         ([(''type'', EvT (EventType event)),
                           (''kind'', Str (gvk_Kind (GetGroupVersionKind new))),
                           (''namespace'', Str (GetNamespace new)),
                           (''name'', Str (GetName new))] @
                          (if EventType event = UpdateEvent \<and> V1Enabled env
                           then [(''diff'', Str (cmp_Diff env (OldObject event) (NewObject event)))]
                           else []))
                       # (case err of
                            Some e \<Rightarrow> [LogError ''event logger'' e ''error passed to reconcile'' []]
                          | None \<Rightarrow> [])
                   | None \<Rightarrow> [])) resourceEvents))
         \<and> length (infoLogs (snd (EventLogger_Log env resourceEvents topology err))) =
             length resourceEvents
         \<and> errorLogs (snd (EventLogger_Log env resourceEvents topology err)) =
             (case err of
                Some e \<Rightarrow> replicate (length resourceEvents) (e, ''error passed to reconcile'')
              | None \<Rightarrow> [])
         \<and> errorLogs (snd (EventLogger_Log env [] topology err)) = []"
proof -
  have lines: "(\<lambda>event.
              case OldObject event of
                Some old \<Rightarrow> eventLines env err event old
              | None \<Rightarrow> (case NewObject event of
                           Some new \<Rightarrow> eventLines env err event new
                         | None \<Rightarrow> []))
     = (\<lambda>event.
              case OldObject event of
                Some old \<Rightarrow>
                  LogInfo ''event logger'' ''new event''
                    ([(''type'', EvT (EventType event)),
                      (''kind'', Str (gvk_Kind (GetGroupVersionKind old))),
                      (''namespace'', Str (GetNamespace old)),
                      (''name'', Str (GetName old))] @
                     (if EventType event = UpdateEvent \<and> V1Enabled env
                      then [(''diff'', Str (cmp_Diff env (OldObject event) (NewObject event)))]
                      else []))
                  # (case err of
                       Some e \<Rightarrow> [LogError ''event logger'' e ''error passed to reconcile'' []]
                     | None \<Rightarrow> [])
              | None \<Rightarrow>
                  (case NewObject event of
                     Some new \<Rightarrow>
                       LogInfo ''event logger'' ''new event''
                         ([(''type'', EvT (EventType event)),
                           (''kind'', Str (gvk_Kind (GetGroupVersionKind new))),
                           (''namespace'', Str (GetNamespace new)),
                           (''name'', Str (GetName new))] @
                          (if EventType event = UpdateEvent \<and> V1Enabled env
                           then [(''diff'', Str (cmp_Diff env (OldObject event) (NewObject event)))]
                           else []))
                       # (case err of
                            Some e \<Rightarrow> [LogError ''event logger'' e ''error passed to reconcile'' []]
                          | None \<Rightarrow> [])
                   | None \<Rightarrow> []))"
    by (rule ext) (simp add: eventLines_def eventValues_def split: option.splits)
  show ?thesis
    using EventLogger_Log_present [OF assms, of env topology err]
          EventLogger_Log_counts [OF assms, of env topology err]
    unfolding lines by simp
qed

theorem EventLogger_Log_total_witness:
  "EventLogger_Log ex_env_verbose [ex_updated, ex_created] ex_topology (Some (PlainError ''upstream'')) =
     (Returned,
      [LogInfo ''event logger'' ''new event''
         [(''type'', EvT UpdateEvent), (''kind'', Str ''Kuadrant''),
          (''namespace'', Str ''kuadrant-system''), (''name'', Str ''kuadrant''),
          (''diff'', Str ''-old +new'')],
       LogError ''event logger'' (PlainError ''upstream'') ''error passed to reconcile'' [],
       LogInfo ''event logger'' ''new event''
         [(''type'', EvT CreateEvent), (''kind'', Str ''Kuadrant''),
          (''namespace'', Str ''kuadrant-system''), (''name'', Str ''kuadrant'')],
       LogError ''event logger'' (PlainError ''upstream'') ''error passed to reconcile'' []])"
proof -
  have present: "list_all (\<lambda>event. OldObject event \<noteq> None \<or> NewObject event \<noteq> None)
                   [ex_updated, ex_created]"
    by (simp add: ex_created_def ex_updated_def)
  from EventLogger_Log_total [OF present, of ex_env_verbose ex_topology "Some (PlainError ''upstream'')"]
  show ?thesis
    by (simp add: ex_created_def ex_updated_def ex_renamed_def ex_kuadrant_def
          ex_env_verbose_def ex_env_def)
qed

subsection \<open>The backend ensurer\<close>

lemma kuadrantRoots_typed:
  "kuadrantTyped k roots \<Longrightarrow> kuadrantRoots k roots = Some (filter (isKind (KuadrantKind k)) roots)"
  by (induction roots) (auto simp: kuadrantTyped_def isKind_def)

lemma kuadrantRoots_Some:
  "kuadrantRoots k roots = Some kobjs \<Longrightarrow> kobjs = filter (isKind (KuadrantKind k)) roots"
  by (induction roots arbitrary: kobjs) (auto simp: isKind_def split: if_splits dyn_type.splits)

lemma authorinoObjects_isKind:
  "authorinoObjects k items = filter (isKind (AuthorinoKind k)) items"
  by (simp add: authorinoObjects_def isKind_def [abs_def])

lemma createAuthorino_unfold:
  "createAuthorino env kobj =
     destructLog ''AuthorinoCrReconciler'' ''failed to destruct authorino'' [(''status'', Str ''error'')]
       (snd (Destruct env (AuthorinoObj (newAuthorino kobj))))
     @ [LogInfo ''AuthorinoCrReconciler'' ''creating authorino resource''
          [(''status'', Str ''processing'')],
        CreateCall AuthorinoResource (GetNamespace kobj)
          (fst (Destruct env (AuthorinoObj (newAuthorino kobj))))]
     @ (case Create env AuthorinoResource (GetNamespace kobj)
               (fst (Destruct env (AuthorinoObj (newAuthorino kobj)))) of
          Some e \<Rightarrow>
            if IsAlreadyExists e
            then [LogInfo ''AuthorinoCrReconciler'' ''already created authorino resource''
                    [(''status'', Str ''acceptable'')]]
            else [LogError ''AuthorinoCrReconciler'' e ''failed to create authorino resource''
                    [(''status'', Str ''error'')]]
        | None \<Rightarrow> [])"
proof -
  have ns: "a_Namespace (newAuthorino kobj) = GetNamespace kobj"
    by (simp add: newAuthorino_def)
  show ?thesis
    unfolding createAuthorino_def Let_def destructLog_def
    by (simp add: ns split: prod.splits)
qed

lemma createCalls_createAuthorino:
  "createCalls (createAuthorino env kobj) =
     [(AuthorinoResource, GetNamespace kobj, fst (Destruct env (AuthorinoObj (newAuthorino kobj))))]"
  by (simp add: createAuthorino_unfold createCalls_append split: option.splits)

lemma afterCreate_createAuthorino:
  "afterCreate (createAuthorino env kobj) =
     (case Create env AuthorinoResource (GetNamespace kobj)
             (fst (Destruct env (AuthorinoObj (newAuthorino kobj)))) of
        Some e \<Rightarrow>
          if IsAlreadyExists e
          then [LogInfo ''AuthorinoCrReconciler'' ''already created authorino resource''
                  [(''status'', Str ''acceptable'')]]
          else [LogError ''AuthorinoCrReconciler'' e ''failed to create authorino resource''
                  [(''status'', Str ''error'')]]
      | None \<Rightarrow> [])"
  by (simp add: createAuthorino_unfold afterCreate_append)

lemma AuthorinoCr_body_typed:
  assumes "kuadrantTyped k (Roots topology)"
  shows "AuthorinoCr_body k env topology =
     (let kobjs = filter (isKind (KuadrantKind k)) (Roots topology);
          multi = (if length kobjs > 1
                   then [LogError ''AuthorinoCrReconciler''
                           (PlainError ''multiple Kuadrant resources found'')
                           ''cannot select root Kuadrant resource'' [(''status'', Str ''error'')]]
                   else [])
      in if kobjs = [] then (Returned, [LogInfo ''AuthorinoCrReconciler'' ''no kuadrant resources found''
                             [(''status'', Str ''skipping'')]])
         else if GetDeletionTimestamp (hd kobjs) \<noteq> None
         then (Returned, multi @
                       [LogInfo ''AuthorinoCrReconciler'' ''root kuadrant marked for deletion''
                          [(''status'', Str ''skipping'')]])
         else if filter (isKind (AuthorinoKind k)) (Items topology) \<noteq> []
         then (Returned, multi @
                       [LogInfo ''AuthorinoCrReconciler''
                          ''authorino resource already exists, no need to create''
                          [(''status'', Str ''skipping'')]])
         else (Returned, multi @ createAuthorino env (hd kobjs)))"
  using kuadrantRoots_typed[OF assms]
  by (simp add: AuthorinoCr_body_def Let_def authorinoObjects_isKind)

lemma AuthorinoCr_body_creates:
  "createCalls (snd (AuthorinoCr_body k env topology)) =
     (if kuadrantRoots k (Roots topology) \<noteq> None \<and> ensurerCondition k topology
      then [(AuthorinoResource, GetNamespace (hd (filter (isKind (KuadrantKind k)) (Roots topology))),
             fst (Destruct env (AuthorinoObj (newAuthorino (hd (filter (isKind (KuadrantKind k)) (Roots topology)))))))]
      else [])"
proof (cases "kuadrantRoots k (Roots topology)")
  case None
  then show ?thesis by (simp add: AuthorinoCr_body_def)
next
  case (Some kobjs)
  then have "kobjs = filter (isKind (KuadrantKind k)) (Roots topology)"
    by (rule kuadrantRoots_Some)
  with Some show ?thesis
    by (simp add: AuthorinoCr_body_def Let_def authorinoObjects_isKind ensurerCondition_def
          createCalls_append createCalls_createAuthorino)
qed

lemma AuthorinoCr_body_updates: "updateCalls (snd (AuthorinoCr_body k env topology)) = []"
  by (simp add: AuthorinoCr_body_def Let_def updateCalls_append createAuthorino_unfold
        split: option.splits)

lemma AuthorinoCr_Reconcile_unfold:
  "AuthorinoCr_Reconcile k env events topology err =
     (fst (AuthorinoCr_body k env topology),
      LogInfo ''AuthorinoCrReconciler'' ''reconciling authorino resource''
              [(''status'', Str ''started'')]
      # snd (AuthorinoCr_body k env topology) @
      [LogInfo ''AuthorinoCrReconciler'' ''reconciling authorino resource''
              [(''status'', Str ''completed'')]])"
  by (simp add: AuthorinoCr_Reconcile_def split: prod.splits)

text \<open>
  C2. The backend ensurer issues a create call only when a root of the Kuadrant kind
  exists, the first such root is not marked for deletion and no object of the Authorino
  kind is in the topology: the create calls of a pass are exactly one call, for the
  Authorino resource in the namespace of that root, when the three conditions hold (and
  the type assertions on the roots succeed), and none in every other case. It never
  issues an update call. When every root of the Kuadrant kind is a Kuadrant, the
  assertions succeed and the pass returns.
\<close>

theorem ensurer_creates_only_when:
  "createCalls (snd (AuthorinoCr_Reconcile k env events topology err)) =
     (if kuadrantRoots k (Roots topology) \<noteq> None \<and> ensurerCondition k topology
      then [(AuthorinoResource, GetNamespace (hd (filter (isKind (KuadrantKind k)) (Roots topology))),
             fst (Destruct env (AuthorinoObj (newAuthorino (hd (filter (isKind (KuadrantKind k)) (Roots topology)))))))]
      else [])
   \<and> updateCalls (snd (AuthorinoCr_Reconcile k env events topology err)) = []
   \<and> (kuadrantTyped k (Roots topology) \<longrightarrow>
        kuadrantRoots k (Roots topology) \<noteq> None
        \<and> fst (AuthorinoCr_Reconcile k env events topology err) = Returned)"
proof -
  have "kuadrantTyped k (Roots topology) \<Longrightarrow> fst (AuthorinoCr_body k env topology) = Returned"
    by (simp add: AuthorinoCr_body_typed Let_def)
  then show ?thesis
    by (simp add: AuthorinoCr_Reconcile_unfold createCalls_append updateCalls_append
          AuthorinoCr_body_creates AuthorinoCr_body_updates kuadrantRoots_typed)
qed

lemma ex_typed: "kuadrantTyped ex_decls [ex_kuadrant]"
  by (simp add: kuadrantTyped_def ex_kuadrant_def)

lemma ex_condition: "ensurerCondition ex_decls ex_topology"
  by (simp add: ensurerCondition_def ex_topology_def isKind_def ex_decls_def ex_kuadrant_def)

lemma ex_first: "filter (isKind (KuadrantKind ex_decls)) (Roots ex_topology) = [ex_kuadrant]"
  by (simp add: ex_topology_def isKind_def ex_decls_def ex_kuadrant_def)

theorem ensurer_creates_only_when_witness:
  "createCalls (snd (AuthorinoCr_Reconcile ex_decls ex_env [ex_created] ex_topology None)) =
     [(AuthorinoResource, ''kuadrant-system'',
       Some (Unstructured (AuthorinoObj (newAuthorino ex_kuadrant))))]
   \<and> fst (AuthorinoCr_Reconcile ex_decls ex_env [ex_created] ex_topology None) = Returned
   \<and> createCalls (snd (AuthorinoCr_Reconcile ex_decls ex_env [ex_created]
                          (ex_topology\<lparr> Roots := [] \<rparr>) None)) = []"
proof -
  have t: "kuadrantTyped ex_decls (Roots ex_topology)"
    using ex_typed by (simp add: ex_topology_def)
  have n: "\<not> ensurerCondition ex_decls (ex_topology\<lparr> Roots := [] \<rparr>)"
    by (simp add: ensurerCondition_def)
  from ensurer_creates_only_when [of ex_decls ex_env "[ex_created]" ex_topology None] t
  have 1: "createCalls (snd (AuthorinoCr_Reconcile ex_decls ex_env [ex_created] ex_topology None)) =
     [(AuthorinoResource, ''kuadrant-system'',
       Some (Unstructured (AuthorinoObj (newAuthorino ex_kuadrant))))]"
    and 2: "fst (AuthorinoCr_Reconcile ex_decls ex_env [ex_created] ex_topology None) = Returned"
    by (simp_all add: ex_condition ex_first) (simp add: ex_kuadrant_def ex_env_def)
  from ensurer_creates_only_when [of ex_decls ex_env "[ex_created]" "ex_topology\<lparr> Roots := [] \<rparr>" None] n
  have 3: "createCalls (snd (AuthorinoCr_Reconcile ex_decls ex_env [ex_created]
                          (ex_topology\<lparr> Roots := [] \<rparr>) None)) = []"
    by simp
  from 1 2 3 show ?thesis by simp
qed

subsection \<open>The topology snapshot synchronizer\<close>

lemma TopologyFile_none_found:
  assumes "existingTopologyConfigMaps (topologyConfigMap k r topology) topology = []"
  shows "TopologyFile_Reconcile k env r events topology err =
     (Returned,
      destructLog ''topology file'' ''failed to destruct topology configmap'' []
        (snd (Destruct env (ConfigMapObj (topologyConfigMap k r topology))))
      @ [CreateCall ConfigMapsResource (tf_Namespace r)
           (fst (Destruct env (ConfigMapObj (topologyConfigMap k r topology))))]
      @ (case Create env ConfigMapsResource (tf_Namespace r)
                (fst (Destruct env (ConfigMapObj (topologyConfigMap k r topology)))) of
           Some e \<Rightarrow>
             if IsAlreadyExists e
             then [LogInfo ''topology file''
                     ''already created topology configmap, must not be in topology yet'' []]
             else [LogError ''topology file'' e ''failed to write topology configmap'' []]
         | None \<Rightarrow> []))"
proof -
  have ns: "cm_Namespace (topologyConfigMap k r topology) = tf_Namespace r"
    by (simp add: topologyConfigMap_def)
  show ?thesis
    unfolding TopologyFile_Reconcile_def Let_def destructLog_def
    using assms by (simp add: ns split: prod.splits)
qed

lemma TopologyFile_found:
  assumes "existingTopologyConfigMaps (topologyConfigMap k r topology) topology = object # rest"
  shows "TopologyFile_Reconcile k env r events topology err =
     (case asConfigMapData object of
        None \<Rightarrow> (Panicked,
                  destructLog ''topology file'' ''failed to destruct topology configmap'' []
                    (snd (Destruct env (ConfigMapObj (topologyConfigMap k r topology))))
                  @ multiLog (object # rest))
      | Some stored \<Rightarrow>
          (Returned,
           destructLog ''topology file'' ''failed to destruct topology configmap'' []
             (snd (Destruct env (ConfigMapObj (topologyConfigMap k r topology))))
           @ multiLog (object # rest)
           @ (if stored ''topology'' \<noteq> Some (ToDot topology)
              then UpdateCall ConfigMapsResource (tf_Namespace r)
                     (fst (Destruct env (ConfigMapObj (topologyConfigMap k r topology))))
                   # (case Update env ConfigMapsResource (tf_Namespace r)
                             (fst (Destruct env (ConfigMapObj (topologyConfigMap k r topology)))) of
                        Some e \<Rightarrow> [LogError ''topology file'' e ''failed to update topology configmap'' []]
                      | None \<Rightarrow> [])
              else [])))"
proof -
  have ns: "cm_Namespace (topologyConfigMap k r topology) = tf_Namespace r"
    and d: "mapIndex (Data (topologyConfigMap k r topology)) ''topology'' = ToDot topology"
    by (simp_all add: topologyConfigMap_def mapIndex_def)
  show ?thesis
    unfolding TopologyFile_Reconcile_def Let_def destructLog_def multiLog_def
    using assms by (simp add: ns d strings_Compare_eq split: prod.splits option.splits)
qed

lemma TopologyFile_create:
  assumes "createCalls (snd (TopologyFile_Reconcile k env r events topology err)) = [(res, ns, u)]"
  shows "afterCreate (snd (TopologyFile_Reconcile k env r events topology err)) =
           (case Create env res ns u of
              Some e \<Rightarrow>
                if IsAlreadyExists e
                then [LogInfo ''topology file''
                        ''already created topology configmap, must not be in topology yet'' []]
                else [LogError ''topology file'' e ''failed to write topology configmap'' []]
            | None \<Rightarrow> [])
         \<and> fst (TopologyFile_Reconcile k env r events topology err) = Returned"
proof (cases "existingTopologyConfigMaps (topologyConfigMap k r topology) topology")
  case Nil
  have nc: "\<And>x. createCalls (case x of
              Some e \<Rightarrow>
                if IsAlreadyExists e
                then [LogInfo ''topology file''
                        ''already created topology configmap, must not be in topology yet'' []]
                else [LogError ''topology file'' e ''failed to write topology configmap'' []]
            | None \<Rightarrow> []) = []"
    by (simp split: option.splits)
  from assms have "res = ConfigMapsResource \<and> ns = tf_Namespace r
      \<and> u = fst (Destruct env (ConfigMapObj (topologyConfigMap k r topology)))"
    by (simp add: TopologyFile_none_found [OF Nil] createCalls_append nc)
  then show ?thesis
    by (simp add: TopologyFile_none_found [OF Nil] afterCreate_append)
next
  case (Cons object rest)
  have "createCalls (snd (TopologyFile_Reconcile k env r events topology err)) = []"
    by (simp add: TopologyFile_found [OF Cons] createCalls_append split: option.splits)
  with assms show ?thesis by simp
qed

lemma TopologyFile_one_found:
  assumes "existingTopologyConfigMaps (topologyConfigMap k r topology) topology = [object]"
      and "dyn object = RuntimeObjectPtr (ConfigMapPtr stored)"
  shows "fst (TopologyFile_Reconcile k env r events topology err) = Returned
    \<and> createCalls (snd (TopologyFile_Reconcile k env r events topology err)) = []
    \<and> updateCalls (snd (TopologyFile_Reconcile k env r events topology err)) =
           (if stored ''topology'' \<noteq> Some (ToDot topology)
            then [(ConfigMapsResource, tf_Namespace r,
                   fst (Destruct env (ConfigMapObj (topologyConfigMap k r topology))))]
            else [])"
proof -
  have a: "asConfigMapData object = Some stored"
    using assms(2) by (simp add: asConfigMapData_def)
  show ?thesis
    by (simp add: TopologyFile_found [OF assms(1)] a createCalls_append updateCalls_append
          split: option.splits)
qed

lemma AuthorinoCr_afterCreate:
  assumes "createCalls (snd (AuthorinoCr_Reconcile k env events topology err)) = [(res, ns, u)]"
  shows "afterCreate (snd (AuthorinoCr_Reconcile k env events topology err)) =
           (case Create env res ns u of
              Some e \<Rightarrow>
                if IsAlreadyExists e
                then [LogInfo ''AuthorinoCrReconciler'' ''already created authorino resource''
                        [(''status'', Str ''acceptable'')]]
                else [LogError ''AuthorinoCrReconciler'' e ''failed to create authorino resource''
                        [(''status'', Str ''error'')]]
            | None \<Rightarrow> [])
           @ [LogInfo ''AuthorinoCrReconciler'' ''reconciling authorino resource''
                [(''status'', Str ''completed'')]]
         \<and> fst (AuthorinoCr_Reconcile k env events topology err) = Returned"
proof (cases "kuadrantRoots k (Roots topology)")
  case None
  with assms show ?thesis
    by (simp add: AuthorinoCr_Reconcile_unfold AuthorinoCr_body_def)
next
  case (Some kobjs)
  with assms show ?thesis
    by (auto simp: AuthorinoCr_Reconcile_unfold AuthorinoCr_body_def Let_def createCalls_append
          createCalls_createAuthorino afterCreate_append afterCreate_createAuthorino
          split: if_splits)
qed

text \<open>
  C5. At both create sites, the backend instance and the topology snapshot record, when
  the create call is answered with an error the pass returns without a panic (a reconcile
  function has no error to return), and what follows the call in the trace holds no error
  line when the error is "already exists", and exactly one error line, carrying that
  error, when it is any other error.
\<close>

theorem already_exists_is_success:
  "(createCalls (snd (AuthorinoCr_Reconcile k env events topology err)) = [(res, ns, u)]
      \<and> Create env res ns u = Some e \<longrightarrow>
        fst (AuthorinoCr_Reconcile k env events topology err) = Returned
        \<and> errorLogs (afterCreate (snd (AuthorinoCr_Reconcile k env events topology err))) =
            (if IsAlreadyExists e then [] else [(e, ''failed to create authorino resource'')]))
   \<and> (createCalls (snd (TopologyFile_Reconcile k env r events topology err)) = [(res', ns', u')]
      \<and> Create env res' ns' u' = Some e' \<longrightarrow>
        fst (TopologyFile_Reconcile k env r events topology err) = Returned
        \<and> errorLogs (afterCreate (snd (TopologyFile_Reconcile k env r events topology err))) =
            (if IsAlreadyExists e' then [] else [(e', ''failed to write topology configmap'')]))"
  by (auto simp: AuthorinoCr_afterCreate TopologyFile_create)

lemma ex_authorino_create:
  "createCalls (snd (AuthorinoCr_Reconcile ex_decls env [ex_created] ex_topology None)) =
     [(AuthorinoResource, ''kuadrant-system'',
       fst (Destruct env (AuthorinoObj (newAuthorino ex_kuadrant))))]"
proof -
  have t: "kuadrantRoots ex_decls (Roots ex_topology) \<noteq> None"
    using kuadrantRoots_typed [OF ex_typed] by (simp add: ex_topology_def)
  have ns: "GetNamespace ex_kuadrant = ''kuadrant-system''" by (simp add: ex_kuadrant_def)
  show ?thesis
    by (simp add: AuthorinoCr_Reconcile_unfold createCalls_append AuthorinoCr_body_creates
          t ex_condition ex_first ns)
qed

lemma ex_none_found:
  "existingTopologyConfigMaps (topologyConfigMap ex_decls ex_reconciler ex_topology) ex_topology = []"
  by (simp add: existingTopologyConfigMaps_def topologyConfigMap_def ex_topology_def
        ex_kuadrant_def)

lemma ex_topology_create:
  "createCalls (snd (TopologyFile_Reconcile ex_decls env ex_reconciler [ex_created] ex_topology None)) =
     [(ConfigMapsResource, ''kuadrant-system'',
       fst (Destruct env (ConfigMapObj (topologyConfigMap ex_decls ex_reconciler ex_topology))))]"
proof -
  have ns: "tf_Namespace ex_reconciler = ''kuadrant-system''" by (simp add: ex_reconciler_def)
  show ?thesis
    by (simp add: TopologyFile_none_found [OF ex_none_found] createCalls_append ns
          split: option.splits)
qed

theorem already_exists_is_success_witness:
  "fst (AuthorinoCr_Reconcile ex_decls ex_env_exists [ex_created] ex_topology None) = Returned
   \<and> errorLogs (afterCreate (snd (AuthorinoCr_Reconcile ex_decls ex_env_exists [ex_created]
                                    ex_topology None))) = []
   \<and> fst (TopologyFile_Reconcile ex_decls ex_env_exists ex_reconciler [ex_created]
            ex_topology None) = Returned
   \<and> errorLogs (afterCreate (snd (TopologyFile_Reconcile ex_decls ex_env_exists ex_reconciler
                                    [ex_created] ex_topology None))) = []"
proof -
  let ?e = "StatusError StatusReasonAlreadyExists ''already exists''"
  have answer: "\<And>res ns u. Create ex_env_exists res ns u = Some ?e"
    by (simp add: ex_env_exists_def)
  have exists: "IsAlreadyExists ?e" by (simp add: IsAlreadyExists_def)
  from already_exists_is_success
         [where k = ex_decls and env = ex_env_exists and events = "[ex_created]"
            and topology = ex_topology and err = None and r = ex_reconciler
            and res = AuthorinoResource and ns = "''kuadrant-system''"
            and u = "fst (Destruct ex_env_exists (AuthorinoObj (newAuthorino ex_kuadrant)))"
            and e = ?e
            and res' = ConfigMapsResource and ns' = "''kuadrant-system''"
            and u' = "fst (Destruct ex_env_exists
                        (ConfigMapObj (topologyConfigMap ex_decls ex_reconciler ex_topology)))"
            and e' = ?e]
  show ?thesis
    by (simp add: ex_authorino_create ex_topology_create answer exists)
qed

lemma filter_map_matching:
  assumes "\<And>x. P (g x) = P x"
  shows "filter P (map (\<lambda>x. if P x then g x else x) xs) = map g (filter P xs)"
  using assms by (induction xs) auto

lemma nextTopology_unchanged:
  assumes "updateCalls (snd (TopologyFile_Reconcile k env r [] topology None)) = []"
  shows "nextTopology k env r topology = topology"
  using assms by (simp add: nextTopology_def)

lemma nextTopology_updated:
  assumes "updateCalls (snd (TopologyFile_Reconcile k env r [] topology None)) =
             [(res, ns, Some (Unstructured (ConfigMapObj cm)))]"
      and "Update env res ns (Some (Unstructured (ConfigMapObj cm))) = None"
  shows "nextTopology k env r topology =
           topology\<lparr> Items :=
             map (\<lambda>object. if GetName object = cm_Name cm \<and> GetNamespace object = cm_Namespace cm
                               \<and> gvk_Kind (GetGroupVersionKind object) = Kind ConfigMapGroupKind
                            then storedAfterUpdate cm object else object)
                 (Items topology) \<rparr>"
  using assms by (simp add: nextTopology_def)

lemma second_pass_writes_nothing:
  assumes one: "existingTopologyConfigMaps (topologyConfigMap k r topology) topology = [object]"
      and typed: "dyn object = RuntimeObjectPtr (ConfigMapPtr stored)"
      and destructed: "Destruct env (ConfigMapObj (topologyConfigMap k r topology)) =
             (Some (Unstructured (ConfigMapObj (topologyConfigMap k r topology))), None)"
      and updated: "Update env ConfigMapsResource (tf_Namespace r)
             (Some (Unstructured (ConfigMapObj (topologyConfigMap k r topology)))) = None"
  shows "createCalls (snd (TopologyFile_Reconcile k env r events (nextTopology k env r topology) err)) = []
       \<and> updateCalls (snd (TopologyFile_Reconcile k env r events (nextTopology k env r topology) err)) = []"
proof (cases "stored ''topology'' = Some (ToDot topology)")
  case True
  have "updateCalls (snd (TopologyFile_Reconcile k env r [] topology None)) = []"
    using TopologyFile_one_found [OF one typed, of env "[]" None] True by simp
  then have "nextTopology k env r topology = topology"
    by (rule nextTopology_unchanged)
  with TopologyFile_one_found [OF one typed, of env events err] True show ?thesis by simp
next
  case False
  let ?cm = "topologyConfigMap k r topology"
  let ?P = "\<lambda>object. GetName object = cm_Name ?cm \<and> GetNamespace object = cm_Namespace ?cm
                       \<and> gvk_Kind (GetGroupVersionKind object) = Kind ConfigMapGroupKind"
  let ?next = "topology\<lparr> Items :=
                 map (\<lambda>object. if ?P object then storedAfterUpdate ?cm object else object)
                     (Items topology) \<rparr>"
  have "updateCalls (snd (TopologyFile_Reconcile k env r [] topology None)) =
          [(ConfigMapsResource, tf_Namespace r, Some (Unstructured (ConfigMapObj ?cm)))]"
    using TopologyFile_one_found [OF one typed, of env "[]" None] False destructed by simp
  then have next_eq: "nextTopology k env r topology = ?next"
    using updated by (rule nextTopology_updated)
  have cm_next: "topologyConfigMap k r ?next = ?cm"
    by (simp add: topologyConfigMap_def)
  have keep: "\<And>x. ?P (storedAfterUpdate ?cm x) = ?P x"
    by (simp add: storedAfterUpdate_def)
  have "existingTopologyConfigMaps ?cm ?next =
          map (storedAfterUpdate ?cm) (existingTopologyConfigMaps ?cm topology)"
    unfolding existingTopologyConfigMaps_def
    using filter_map_matching [of ?P "storedAfterUpdate ?cm" "Items topology", OF keep]
    by simp
  then have one': "existingTopologyConfigMaps (topologyConfigMap k r ?next) ?next =
                     [storedAfterUpdate ?cm object]"
    by (simp add: cm_next one)
  have typed': "dyn (storedAfterUpdate ?cm object) = RuntimeObjectPtr (ConfigMapPtr (Data ?cm))"
    by (simp add: storedAfterUpdate_def)
  have same: "Data ?cm ''topology'' = Some (ToDot ?next)"
    by (simp add: topologyConfigMap_def)
  from TopologyFile_one_found [OF one' typed', of env events err] same
  show ?thesis by (simp add: next_eq)
qed

text \<open>
  C6. When exactly one snapshot record is found (a ConfigMap in a runtime object), the
  synchronizer issues no create call, and it issues an update call if and only if the
  text stored under the key "topology" is not the freshly serialized topology (a record
  without that key counts as different); the call is the only one. When the previous
  pass converted its ConfigMap and its update, if it made one, succeeded, and the next
  pass sees the same topology but for the record as the update left it, the next pass
  performs no write.
\<close>

theorem snapshot_update_iff_different:
  assumes "existingTopologyConfigMaps (topologyConfigMap k r topology) topology = [object]"
      and "dyn object = RuntimeObjectPtr (ConfigMapPtr stored)"
  shows "(updateCalls (snd (TopologyFile_Reconcile k env r events topology err)) \<noteq> []
            \<longleftrightarrow> stored ''topology'' \<noteq> Some (ToDot topology))
       \<and> length (updateCalls (snd (TopologyFile_Reconcile k env r events topology err))) \<le> 1
       \<and> createCalls (snd (TopologyFile_Reconcile k env r events topology err)) = []
       \<and> fst (TopologyFile_Reconcile k env r events topology err) = Returned
       \<and> (Destruct env (ConfigMapObj (topologyConfigMap k r topology)) =
             (Some (Unstructured (ConfigMapObj (topologyConfigMap k r topology))), None)
          \<and> Update env ConfigMapsResource (tf_Namespace r)
             (Some (Unstructured (ConfigMapObj (topologyConfigMap k r topology)))) = None
          \<longrightarrow> createCalls (snd (TopologyFile_Reconcile k env r events'
                                   (nextTopology k env r topology) err')) = []
              \<and> updateCalls (snd (TopologyFile_Reconcile k env r events'
                                   (nextTopology k env r topology) err')) = [])"
  using TopologyFile_one_found [OF assms, of env events err]
        second_pass_writes_nothing [OF assms, of env events' err']
  by simp

lemma ex_one_found:
  "existingTopologyConfigMaps (topologyConfigMap ex_decls ex_reconciler ex_topology_stale)
     ex_topology_stale = [ex_record [''topology'' \<mapsto> ''old'']]"
  by (simp add: existingTopologyConfigMaps_def topologyConfigMap_def ex_topology_stale_def
        ex_kuadrant_def ex_record_def ex_reconciler_def ConfigMapGroupKind_def)

theorem snapshot_update_iff_different_witness:
  "updateCalls (snd (TopologyFile_Reconcile ex_decls ex_env ex_reconciler [ex_created]
                       ex_topology_stale None)) \<noteq> []
   \<and> createCalls (snd (TopologyFile_Reconcile ex_decls ex_env ex_reconciler [ex_created]
                       ex_topology_stale None)) = []
   \<and> updateCalls (snd (TopologyFile_Reconcile ex_decls ex_env ex_reconciler [ex_created]
                       (nextTopology ex_decls ex_env ex_reconciler ex_topology_stale) None)) = []
   \<and> createCalls (snd (TopologyFile_Reconcile ex_decls ex_env ex_reconciler [ex_created]
                       (nextTopology ex_decls ex_env ex_reconciler ex_topology_stale) None)) = []"
proof -
  have typed: "dyn (ex_record [''topology'' \<mapsto> ''old'']) =
                 RuntimeObjectPtr (ConfigMapPtr [''topology'' \<mapsto> ''old''])"
    by (simp add: ex_record_def)
  have differs: "[''topology'' \<mapsto> ''old''] ''topology'' \<noteq> Some (ToDot ex_topology_stale)"
    by (simp add: ex_topology_stale_def)
  have destructed: "\<And>obj. Destruct ex_env obj = (Some (Unstructured obj), None)"
    and updated: "\<And>res ns u. Update ex_env res ns u = None"
    by (simp_all add: ex_env_def)
  from snapshot_update_iff_different [OF ex_one_found typed, of ex_env "[ex_created]" None
         "[ex_created]" None] differs destructed updated
  show ?thesis by simp
qed

subsection \<open>The shipped composition\<close>

lemma andThen_Returned_Nil [simp]: "andThen a (Returned, []) = a"
  by (cases a) (simp add: andThen_def split: outcome.splits)








subsection \<open>A failed conversion\<close>

text \<open>
  C8. What the code does when \<open>Destruct\<close> fails, at the example inputs: the error is
  logged, and the create call is issued all the same, with the nil pointer that
  \<open>Destruct\<close> returned; likewise the update call when a stale record is found.
\<close>

theorem destruct_failure_still_writes:
  "createCalls (snd (AuthorinoCr_Reconcile ex_decls ex_env_destruct_fails [ex_created]
                       ex_topology None)) =
     [(AuthorinoResource, ''kuadrant-system'', None)]
   \<and> errorLogs (snd (AuthorinoCr_Reconcile ex_decls ex_env_destruct_fails [ex_created]
                       ex_topology None)) =
     [(PlainError ''cannot convert'', ''failed to destruct authorino'')]
   \<and> createCalls (snd (TopologyFile_Reconcile ex_decls ex_env_destruct_fails ex_reconciler
                       [ex_created] ex_topology None)) =
     [(ConfigMapsResource, ''kuadrant-system'', None)]
   \<and> updateCalls (snd (TopologyFile_Reconcile ex_decls ex_env_destruct_fails ex_reconciler
                       [ex_created] ex_topology_stale None)) =
     [(ConfigMapsResource, ''kuadrant-system'', None)]"
proof -
  have d: "\<And>obj. Destruct ex_env_destruct_fails obj = (None, Some (PlainError ''cannot convert''))"
    and c: "\<And>res ns u. Create ex_env_destruct_fails res ns u = None"
    by (simp_all add: ex_env_destruct_fails_def ex_env_def)
  have typed: "dyn (ex_record [''topology'' \<mapsto> ''old'']) =
                 RuntimeObjectPtr (ConfigMapPtr [''topology'' \<mapsto> ''old''])"
    by (simp add: ex_record_def)
  have differs: "[''topology'' \<mapsto> ''old''] ''topology'' \<noteq> Some (ToDot ex_topology_stale)"
    by (simp add: ex_topology_stale_def)
  have ns: "tf_Namespace ex_reconciler = ''kuadrant-system''" by (simp add: ex_reconciler_def)
  have t: "kuadrantTyped ex_decls (Roots ex_topology)"
    using ex_typed by (simp add: ex_topology_def)
  have c1: "ensurerCondition ex_decls ex_topology = True" using ex_condition by simp
  have c2: "filter (isKind (AuthorinoKind ex_decls)) (Items ex_topology) = []"
    using ex_condition by (simp add: ensurerCondition_def Let_def)
  have c3: "GetDeletionTimestamp ex_kuadrant = None" by (simp add: ex_kuadrant_def)
  have c4: "GetNamespace ex_kuadrant = ''kuadrant-system''" by (simp add: ex_kuadrant_def)
  have 1: "createCalls (snd (AuthorinoCr_Reconcile ex_decls ex_env_destruct_fails [ex_created]
                       ex_topology None)) = [(AuthorinoResource, ''kuadrant-system'', None)]"
    by (simp add: ex_authorino_create d)
  have 2: "errorLogs (snd (AuthorinoCr_Reconcile ex_decls ex_env_destruct_fails [ex_created]
                       ex_topology None)) =
     [(PlainError ''cannot convert'', ''failed to destruct authorino'')]"
    by (simp add: AuthorinoCr_Reconcile_unfold AuthorinoCr_body_typed [OF t] Let_def ex_first
          c2 c3 c4 createAuthorino_unfold d c destructLog_def errorLogs_append)
  have 3: "createCalls (snd (TopologyFile_Reconcile ex_decls ex_env_destruct_fails ex_reconciler
                       [ex_created] ex_topology None)) =
     [(ConfigMapsResource, ''kuadrant-system'', None)]"
    by (simp add: ex_topology_create d)
  have 4: "updateCalls (snd (TopologyFile_Reconcile ex_decls ex_env_destruct_fails ex_reconciler
                       [ex_created] ex_topology_stale None)) =
     [(ConfigMapsResource, ''kuadrant-system'', None)]"
    using TopologyFile_one_found [OF ex_one_found typed, of ex_env_destruct_fails "[ex_created]" None]
          differs
    by (simp add: d ns)
  from 1 2 3 4 show ?thesis by simp
qed

end
